theory Spec2Isabelle
  imports Main
begin

section \<open>Values handed to the logging engine\<close>

text \<open>
  The package \<^verbatim>\<open>pkg/log\<close> is a facade over the zap logging engine
  (\<^verbatim>\<open>go.uber.org/zap v1.20.0\<close> in \<^verbatim>\<open>go.mod\<close>). The facade's own functions are
  embedded below from \<^verbatim>\<open>log.go\<close> and \<^verbatim>\<open>options.go\<close>. The engine is a library:
  the few operations the facade calls are modelled from zap's documented behaviour, each
  marked as such, and kept as small as the facade's control flow needs.

  \<^verbatim>\<open>zapcore.Level\<close> is a Go \<^verbatim>\<open>int8\<close>; it is modelled as an \<open>int\<close>, and the one place
  where a wider integer is converted to it (\<^verbatim>\<open>zapLogger.V\<close>) writes the truncation out.
\<close>

type_synonym zapcore_Level = int

definition DebugLevel :: zapcore_Level where "DebugLevel = -1"
definition InfoLevel :: zapcore_Level where "InfoLevel = 0"
definition WarnLevel :: zapcore_Level where "WarnLevel = 1"
definition ErrorLevel :: zapcore_Level where "ErrorLevel = 2"
definition DPanicLevel :: zapcore_Level where "DPanicLevel = 3"
definition PanicLevel :: zapcore_Level where "PanicLevel = 4"
definition FatalLevel :: zapcore_Level where "FatalLevel = 5"

text \<open>
  A Go \<^verbatim>\<open>interface{}\<close> value, as far as the facade inspects it: the type assertions
  \<^verbatim>\<open>.(zapcore.Field)\<close> and \<^verbatim>\<open>.(string)\<close> and the comparison with \<^verbatim>\<open>nil\<close>.
  \<open>Any k v\<close> is the field that \<^verbatim>\<open>zap.Any(k, v)\<close> builds.
\<close>

datatype iface = INil | IString string | IInt int | IBool bool | IField Field
  and Field = Any string iface

text \<open>A record as the engine writes it. Time stamp, caller and stack are left out.\<close>

record Entry =
  ent_Level :: zapcore_Level
  ent_LoggerName :: string
  ent_Message :: string
  ent_Fields :: "Field list"

text \<open>
  How a call ends: it returns, it panics (Go's \<^verbatim>\<open>panic\<close>, which unwinds into the
  caller), or it ends the process (\<^verbatim>\<open>os.Exit\<close>). A call's effect is the list of records
  written, in order, and how it ended.
\<close>

datatype 'a outcome = Returns 'a | Panics string | Exits

type_synonym 'a effect = "Entry list \<times> 'a outcome"

definition andThen :: "'a effect \<Rightarrow> ('a \<Rightarrow> 'b effect) \<Rightarrow> 'b effect" where
  "andThen m f =
     (case m of
        (es, Returns x) \<Rightarrow> (case f x of (es', r) \<Rightarrow> (es @ es', r))
      | (es, Panics s) \<Rightarrow> (es, Panics s)
      | (es, Exits) \<Rightarrow> (es, Exits))"

section \<open>The engine (zap), as the facade uses it\<close>

text \<open>
  A \<^verbatim>\<open>*zap.Logger\<close>. The facade never mutates one: \<^verbatim>\<open>With\<close> and \<^verbatim>\<open>Named\<close>
  return a modified copy, so the pointer is modelled by the value it points to.
  \<open>core_level\<close> is the threshold of \<^verbatim>\<open>zap.Config.Level\<close>, \<open>development\<close> the
  \<^verbatim>\<open>zap.Development()\<close> option, \<open>core_fields\<close> the fields bound by \<^verbatim>\<open>With\<close>,
  and \<open>sampling\<close> the \<^verbatim>\<open>Initial\<close> and \<^verbatim>\<open>Thereafter\<close> of the sampler that
  \<^verbatim>\<open>zap.Config.Sampling\<close> wraps around the core (\<open>None\<close> for a core without sampler).
\<close>

record zap_Logger =
  core_level :: zapcore_Level
  development :: bool
  logger_name :: string
  core_fields :: "Field list"
  sampling :: "(nat \<times> nat) option"

text \<open>\<^verbatim>\<open>l.Core().Enabled(lvl)\<close>: the level enabler is \<^verbatim>\<open>lvl >= threshold\<close>.\<close>

definition core_Enabled :: "zap_Logger \<Rightarrow> zapcore_Level \<Rightarrow> bool" where
  "core_Enabled l lvl = (core_level l \<le> lvl)"

text \<open>
  The sampler, zap's \<^verbatim>\<open>zapcore/sampler.go\<close>. For every entry of an enabled level it
  advances a counter kept for the entry's level and the hash of its message and restarted
  every second, and reads the new count \<open>n\<close>: the entry is the \<open>n\<close>-th of its level
  and message in the current second. The entry is dropped when \<open>n\<close> is beyond \<^verbatim>\<open>Initial\<close> and not
  a multiple of \<^verbatim>\<open>Thereafter\<close> further on; otherwise it goes on to the core. The count
  depends on the clock and on what the whole process has logged in the last second, so it
  is an input of every engine call below, written \<open>n\<close>. With \<^verbatim>\<open>Initial\<close> and
  \<^verbatim>\<open>Thereafter\<close> both 100, as the facade sets them, the first 100 entries pass, the
  101st to the 199th are dropped, the 200th passes.
\<close>

definition sampled :: "zap_Logger \<Rightarrow> nat \<Rightarrow> bool" where
  "sampled l n =
     (case sampling l of
        None \<Rightarrow> True
      | Some (first, thereafter) \<Rightarrow> \<not> (n > first \<and> (n - first) mod thereafter \<noteq> 0))"

datatype CheckWriteAction = WriteThenNoop | WriteThenPanic | WriteThenFatal

record CheckedEntry =
  ce_Entry :: Entry
  ce_willWrite :: bool
  ce_should :: CheckWriteAction

text \<open>
  \<^verbatim>\<open>(*zap.Logger).Check(lvl, msg)\<close>, zap's \<^verbatim>\<open>logger.go\<close>: a disabled level below
  \<^verbatim>\<open>DPanicLevel\<close> gives \<^verbatim>\<open>nil\<close> at once; \<^verbatim>\<open>PanicLevel\<close> and \<^verbatim>\<open>FatalLevel\<close>
  always get their terminal action, \<^verbatim>\<open>DPanicLevel\<close> gets \<^verbatim>\<open>WriteThenPanic\<close> in
  development mode; the result is \<^verbatim>\<open>nil\<close> when the core takes no record and there is no
  terminal action. The core takes the record when the level is enabled and the sampler
  lets the entry pass; \<open>n\<close> is the sampler's count for this entry.
\<close>

definition zap_Check ::
  "zap_Logger \<Rightarrow> zapcore_Level \<Rightarrow> string \<Rightarrow> nat \<Rightarrow> CheckedEntry option" where
  "zap_Check l lvl msg n =
     (if lvl < DPanicLevel \<and> \<not> core_Enabled l lvl then None
      else
        let willWrite = (core_Enabled l lvl \<and> sampled l n);
            should =
              (if lvl = PanicLevel then WriteThenPanic
               else if lvl = FatalLevel then WriteThenFatal
               else if lvl = DPanicLevel \<and> development l then WriteThenPanic
               else WriteThenNoop)
        in if \<not> willWrite \<and> should = WriteThenNoop then None
           else Some \<lparr>ce_Entry = \<lparr>ent_Level = lvl, ent_LoggerName = logger_name l,
                                    ent_Message = msg, ent_Fields = core_fields l\<rparr>,
                       ce_willWrite = willWrite, ce_should = should\<rparr>)"

text \<open>
  \<^verbatim>\<open>(*zapcore.CheckedEntry).Write(fields...)\<close>: the record goes to the core with the
  bound fields first and the call's fields after them, then the terminal action runs.
\<close>

definition ce_Write :: "CheckedEntry \<Rightarrow> Field list \<Rightarrow> unit effect" where
  "ce_Write ce flds =
     ((if ce_willWrite ce
       then [(ce_Entry ce)\<lparr>ent_Fields := ent_Fields (ce_Entry ce) @ flds\<rparr>]
       else []),
      (case ce_should ce of
         WriteThenNoop \<Rightarrow> Returns ()
       | WriteThenPanic \<Rightarrow> Panics (ent_Message (ce_Entry ce))
       | WriteThenFatal \<Rightarrow> Exits))"

text \<open>
  The leveled methods of \<^verbatim>\<open>*zap.Logger\<close> (\<^verbatim>\<open>Info\<close>, \<^verbatim>\<open>DPanic\<close>, ...): check, then
  write. \<^verbatim>\<open>DPanic\<close> is documented as: logs at \<^verbatim>\<open>DPanicLevel\<close>; if the logger is in
  development mode, it then panics.
\<close>

definition zap_log ::
  "zap_Logger \<Rightarrow> zapcore_Level \<Rightarrow> string \<Rightarrow> Field list \<Rightarrow> nat \<Rightarrow> unit effect" where
  "zap_log l lvl msg flds n =
     (case zap_Check l lvl msg n of
        None \<Rightarrow> ([], Returns ())
      | Some ce \<Rightarrow> ce_Write ce flds)"

definition zap_Info :: "zap_Logger \<Rightarrow> string \<Rightarrow> Field list \<Rightarrow> nat \<Rightarrow> unit effect" where
  "zap_Info l msg flds n = zap_log l InfoLevel msg flds n"

definition zap_DPanic :: "zap_Logger \<Rightarrow> string \<Rightarrow> Field list \<Rightarrow> nat \<Rightarrow> unit effect" where
  "zap_DPanic l msg flds n = zap_log l DPanicLevel msg flds n"

text \<open>\<^verbatim>\<open>(*zap.Logger).With(fields...)\<close>: a copy with the fields added after the bound ones;
  the logger itself when there are none.\<close>

definition zap_With :: "zap_Logger \<Rightarrow> Field list \<Rightarrow> zap_Logger" where
  "zap_With l flds = (if flds = [] then l else l\<lparr>core_fields := core_fields l @ flds\<rparr>)"

text \<open>\<^verbatim>\<open>(*zap.Logger).Named(s)\<close>: a copy whose name is extended by \<open>s\<close>, joined with a
  period; the logger itself when \<open>s\<close> is empty.\<close>

definition zap_Named :: "zap_Logger \<Rightarrow> string \<Rightarrow> zap_Logger" where
  "zap_Named l s =
     (if s = [] then l
      else if logger_name l = [] then l\<lparr>logger_name := s\<rparr>
      else l\<lparr>logger_name := logger_name l @ ''.'' @ s\<rparr>)"

section \<open>Key/value conversion: \<^verbatim>\<open>handleFields\<close>\<close>

text \<open>
  \<^verbatim>\<open>handleFields\<close> (\<^verbatim>\<open>log.go\<close>, lines 116 to 153). The loop walks \<^verbatim>\<open>args\<close> with an
  index that only grows; \<open>handleFields_loop\<close> takes the part of \<^verbatim>\<open>args\<close> from the index
  on and the fields gathered so far (\<open>flds\<close>). Its equations are the loop's tests in the source's
  order: the typed field, the last element (\<^verbatim>\<open>i == len(args)-1\<close>), the string key, any
  other key. Each \<^verbatim>\<open>break\<close> comes after a call of \<^verbatim>\<open>l.DPanic\<close>, and is reached only
  if that call returns. A run of the loop makes at most one such call; \<open>n\<close> is the
  sampler's count for its entry.
\<close>

fun handleFields_loop ::
  "zap_Logger \<Rightarrow> iface list \<Rightarrow> Field list \<Rightarrow> nat \<Rightarrow> Field list effect" where
  "handleFields_loop l [] flds n = ([], Returns flds)"
| "handleFields_loop l (IField f # rest) flds n =
     andThen (zap_DPanic l ''strongly-typed Zap Field passed to logr''
                [Any ''zap field'' (IField f)] n)
             (\<lambda>_. ([], Returns flds))"
| "handleFields_loop l [key] flds n =
     andThen (zap_DPanic l ''odd number of arguments passed as key-value pairs for logging''
                [Any ''ignored key'' key] n)
             (\<lambda>_. ([], Returns flds))"
| "handleFields_loop l (IString keyStr # val # rest) flds n =
     handleFields_loop l rest (flds @ [Any keyStr val]) n"
| "handleFields_loop l (key # val # rest) flds n =
     andThen (zap_DPanic l
                ''non-string key argument passed to logging, ignoring all later arguments''
                [Any ''invalid key'' key] n)
             (\<lambda>_. ([], Returns flds))"

definition handleFields ::
  "zap_Logger \<Rightarrow> iface list \<Rightarrow> Field list \<Rightarrow> nat \<Rightarrow> Field list effect" where
  "handleFields l args additional n =
     (if length args = 0 then ([], Returns additional)
      else andThen (handleFields_loop l args [] n)
                   (\<lambda>flds. ([], Returns (flds @ additional))))"

section \<open>The level-gated info logger\<close>

text \<open>
  \<^verbatim>\<open>infoLogger\<close> (\<^verbatim>\<open>log.go\<close>, lines 77 to 100), \<^verbatim>\<open>noopInfoLogger\<close> and its
  one instance \<^verbatim>\<open>disabledInfoLogger\<close> (lines 107 to 114). An \<^verbatim>\<open>InfoLogger\<close> interface
  value holds either a pointer to an \<^verbatim>\<open>infoLogger\<close>, which is never written after it
  is built and so is modelled by its value, or the shared \<^verbatim>\<open>disabledInfoLogger\<close>.
\<close>

record infoLogger =
  level :: zapcore_Level
  log :: zap_Logger

datatype InfoLogger = InfoLoggerPtr infoLogger | disabledInfoLogger



text \<open>
  \<^verbatim>\<open>Infow\<close>: the call of \<^verbatim>\<open>handleFields\<close> is an argument of \<^verbatim>\<open>Write\<close> inside the
  \<^verbatim>\<open>if\<close>, so it is evaluated after \<^verbatim>\<open>Check\<close> and only when \<^verbatim>\<open>Check\<close> gave an entry.
  \<open>n\<close> is the sampler's count for the entry of the message, \<open>n'\<close> the one for the
  conversion's diagnostic.
\<close>

definition infoLogger_Infow ::
  "infoLogger \<Rightarrow> string \<Rightarrow> iface list \<Rightarrow> nat \<Rightarrow> nat \<Rightarrow> unit effect" where
  "infoLogger_Infow l msg keysAndValues n n' =
     (case zap_Check (log l) (level l) msg n of
        None \<Rightarrow> ([], Returns ())
      | Some checkedEntry \<Rightarrow>
          andThen (handleFields (log l) keysAndValues [] n')
                  (\<lambda>flds. ce_Write checkedEntry flds))"



definition noopInfoLogger_Infow :: "string \<Rightarrow> iface list \<Rightarrow> unit effect" where
  "noopInfoLogger_Infow msg keysAndValues = ([], Returns ())"



fun InfoLogger_Infow ::
  "InfoLogger \<Rightarrow> string \<Rightarrow> iface list \<Rightarrow> nat \<Rightarrow> nat \<Rightarrow> unit effect" where
  "InfoLogger_Infow (InfoLoggerPtr l) msg kvs n n' = infoLogger_Infow l msg kvs n n'"
| "InfoLogger_Infow disabledInfoLogger msg kvs n n' = noopInfoLogger_Infow msg kvs"

section \<open>The logger facade\<close>

text \<open>
  \<^verbatim>\<open>zapLogger\<close> (lines 102 to 105) embeds an \<^verbatim>\<open>infoLogger\<close> and adds the field
  \<^verbatim>\<open>zapLogger\<close>. Loggers are handled through pointers, and \<^verbatim>\<open>L\<close> assigns to a field
  of the struct it has just copied, so the structs live in a store: a \<^verbatim>\<open>*zapLogger\<close> is
  an index into the list of the structs allocated so far, \<^verbatim>\<open>&zapLogger{...}\<close> appends
  one, and a pointer that points to no struct (Go's \<^verbatim>\<open>nil\<close>) panics when it is read.
  Methods that only read their receiver take the struct it points to.
\<close>

record zapLogger = infoLogger +
  zapLogger :: zap_Logger

type_synonym addr = nat
type_synonym store = "zapLogger list"

definition deref :: "store \<Rightarrow> addr \<Rightarrow> zapLogger option" where
  "deref s p = (if p < length s then Some (s ! p) else None)"

definition new :: "store \<Rightarrow> zapLogger \<Rightarrow> store \<times> addr" where
  "new s v = (s @ [v], length s)"

definition withReceiver :: "store \<Rightarrow> addr \<Rightarrow> (zapLogger \<Rightarrow> 'a effect) \<Rightarrow> 'a effect" where
  "withReceiver s p f =
     (case deref s p of
        None \<Rightarrow> ([], Panics ''invalid memory address or nil pointer dereference'')
      | Some l \<Rightarrow> f l)"

text \<open>\<^verbatim>\<open>NewLogger\<close> (lines 155 to 163).\<close>

definition NewLogger :: "store \<Rightarrow> zap_Logger \<Rightarrow> store \<times> addr" where
  "NewLogger s l = new s \<lparr>level = InfoLevel, log = l, zapLogger = l\<rparr>"

text \<open>
  \<^verbatim>\<open>zapcore.Level(level)\<close> with \<^verbatim>\<open>level\<close> a Go \<^verbatim>\<open>int\<close>: the conversion to
  \<^verbatim>\<open>int8\<close> keeps the low eight bits, read as two's complement.
\<close>

definition Level_of_int :: "int \<Rightarrow> zapcore_Level" where
  "Level_of_int n = (n + 128) mod 256 - 128"


text \<open>\<^verbatim>\<open>(*zapLogger).Write\<close> (lines 270 to 273); the result is \<^verbatim>\<open>(n, err)\<close>, with
  \<open>None\<close> for a \<^verbatim>\<open>nil\<close> error. A byte slice is a list of bytes, as a \<open>string\<close> is.\<close>

definition zapLogger_Write ::
  "zapLogger \<Rightarrow> string \<Rightarrow> nat \<Rightarrow> (int \<times> string option) effect" where
  "zapLogger_Write l p n =
     andThen (zap_Info (zapLogger l) p [] n)
             (\<lambda>_. ([], Returns (int (length p), None)))"

text \<open>\<^verbatim>\<open>(*zapLogger).Info\<close> (lines 425 to 427).\<close>

definition zapLogger_Info :: "zapLogger \<Rightarrow> string \<Rightarrow> Field list \<Rightarrow> nat \<Rightarrow> unit effect" where
  "zapLogger_Info l msg flds n = zap_Info (zapLogger l) msg flds n"

text \<open>
  The facade's own key/value methods, \<^verbatim>\<open>Debugw\<close> to \<^verbatim>\<open>Fatalw\<close> (lines 313 to 443),
  do not convert their arguments: each is \<^verbatim>\<open>l.zapLogger.Sugar().Xw(msg, v...)\<close>, a
  call of zap's sugared logger on the same engine. The sugared logger is library code and
  is the parameter \<open>sugar\<close>.
\<close>

type_synonym Sugar = "zap_Logger \<Rightarrow> zapcore_Level \<Rightarrow> string \<Rightarrow> iface list \<Rightarrow> unit effect"

definition zapLogger_Debugw :: "Sugar \<Rightarrow> zapLogger \<Rightarrow> string \<Rightarrow> iface list \<Rightarrow> unit effect" where
  "zapLogger_Debugw sugar l msg v = sugar (zapLogger l) DebugLevel msg v"

definition zapLogger_Infow :: "Sugar \<Rightarrow> zapLogger \<Rightarrow> string \<Rightarrow> iface list \<Rightarrow> unit effect" where
  "zapLogger_Infow sugar l msg v = sugar (zapLogger l) InfoLevel msg v"

definition zapLogger_Warnw :: "Sugar \<Rightarrow> zapLogger \<Rightarrow> string \<Rightarrow> iface list \<Rightarrow> unit effect" where
  "zapLogger_Warnw sugar l msg v = sugar (zapLogger l) WarnLevel msg v"

definition zapLogger_Errorw :: "Sugar \<Rightarrow> zapLogger \<Rightarrow> string \<Rightarrow> iface list \<Rightarrow> unit effect" where
  "zapLogger_Errorw sugar l msg v = sugar (zapLogger l) ErrorLevel msg v"

definition zapLogger_Panicw :: "Sugar \<Rightarrow> zapLogger \<Rightarrow> string \<Rightarrow> iface list \<Rightarrow> unit effect" where
  "zapLogger_Panicw sugar l msg v = sugar (zapLogger l) PanicLevel msg v"

definition zapLogger_Fatalw :: "Sugar \<Rightarrow> zapLogger \<Rightarrow> string \<Rightarrow> iface list \<Rightarrow> unit effect" where
  "zapLogger_Fatalw sugar l msg v = sugar (zapLogger l) FatalLevel msg v"

text \<open>\<^verbatim>\<open>(*zapLogger).WithValues\<close> (lines 279 to 282) and \<^verbatim>\<open>WithName\<close> (lines 288 to
  291): the receiver is read, the result is a newly allocated struct.\<close>

definition zapLogger_WithValues ::
  "store \<Rightarrow> addr \<Rightarrow> iface list \<Rightarrow> nat \<Rightarrow> (store \<times> addr) effect" where
  "zapLogger_WithValues s p keysAndValues n =
     withReceiver s p (\<lambda>l.
       andThen (handleFields (zapLogger l) keysAndValues [] n)
               (\<lambda>flds. ([], Returns (NewLogger s (zap_With (zapLogger l) flds)))))"

definition zapLogger_WithName :: "store \<Rightarrow> addr \<Rightarrow> string \<Rightarrow> (store \<times> addr) effect" where
  "zapLogger_WithName s p nm =
     withReceiver s p (\<lambda>l. ([], Returns (NewLogger s (zap_Named (zapLogger l) nm))))"

section \<open>Context enrichment\<close>

definition KeyRequestID :: string where "KeyRequestID = ''requestID''"
definition KeyUsername :: string where "KeyUsername = ''username''"
definition KeyWatcherName :: string where "KeyWatcherName = ''watcher''"

text \<open>
  A \<^verbatim>\<open>context.Context\<close> is used through \<^verbatim>\<open>ctx.Value(key)\<close> only, so it is modelled
  by that function; \<open>INil\<close> is the \<^verbatim>\<open>nil\<close> that \<^verbatim>\<open>Value\<close> returns for a key with no
  value. The keys are the string constants above, held in an \<^verbatim>\<open>interface{}\<close>. A
  \<^verbatim>\<open>nil\<close> context, which the \<^verbatim>\<open>context\<close> package forbids passing, is not a value
  of this type.
\<close>

type_synonym Context = "iface \<Rightarrow> iface"

text \<open>\<^verbatim>\<open>(*zapLogger).clone\<close> (lines 471 to 475): \<^verbatim>\<open>copy := *l; return &copy\<close>.\<close>

definition zapLogger_clone :: "store \<Rightarrow> addr \<Rightarrow> (store \<times> addr) effect" where
  "zapLogger_clone s p = withReceiver s p (\<lambda>l. ([], Returns (new s l)))"

text \<open>The assignment \<^verbatim>\<open>ng.zapLogger = ng.zapLogger.With(f)\<close> through the pointer \<open>ng\<close>.\<close>

definition assign_With :: "store \<Rightarrow> addr \<Rightarrow> Field \<Rightarrow> store" where
  "assign_With s ng f = s[ng := (s ! ng)\<lparr>zapLogger := zap_With (zapLogger (s ! ng)) [f]\<rparr>]"

text \<open>\<^verbatim>\<open>(*zapLogger).L\<close> (lines 452 to 468).\<close>

definition zapLogger_L :: "store \<Rightarrow> addr \<Rightarrow> Context \<Rightarrow> (store \<times> addr) effect" where
  "zapLogger_L s p ctx =
     andThen (zapLogger_clone s p) (\<lambda>(s0, ng).
       let requestID = ctx (IString KeyRequestID);
           s1 = (if requestID \<noteq> INil then assign_With s0 ng (Any KeyRequestID requestID) else s0);
           userName = ctx (IString KeyUsername);
           s2 = (if userName \<noteq> INil then assign_With s1 ng (Any KeyUsername userName) else s1);
           wathcherName = ctx (IString KeyWatcherName);
           s3 = (if wathcherName \<noteq> INil
                 then assign_With s2 ng (Any KeyWatcherName wathcherName) else s2)
       in ([], Returns (s3, ng)))"

section \<open>Options\<close>

text \<open>\<^verbatim>\<open>Options\<close> and \<^verbatim>\<open>NewOptions\<close> (\<^verbatim>\<open>options.go\<close>, lines 11 to 43).\<close>

definition consoleFormat :: string where "consoleFormat = ''console''"
definition jsonFormat :: string where "jsonFormat = ''json''"

record Options =
  OutputPaths :: "string list"
  ErrorOutputPaths :: "string list"
  Level :: string
  Format :: string
  DisableCaller :: bool
  DisableStacktrace :: bool
  EnableColor :: bool
  Development :: bool
  Name :: string

definition NewOptions :: Options where
  "NewOptions =
     \<lparr>OutputPaths = [''stdout''],
      ErrorOutputPaths = [''stderr''],
      Level = ''info'',
      Format = consoleFormat,
      DisableCaller = False,
      DisableStacktrace = False,
      EnableColor = False,
      Development = False,
      Name = []\<rparr>"

datatype error =
    UnrecognizedLevel string
  | NotValidLogFormat string
  | NoEncoderNameSpecified
  | NoEncoderRegistered string
  | CannotOpenSinks "string list"

subsection \<open>Library functions on strings\<close>

text \<open>
  Go's \<^verbatim>\<open>strings.ToLower\<close> and \<^verbatim>\<open>bytes.ToLower\<close> lower every letter of the UTF-8
  text by Unicode's simple case mapping. The facade and the level parser only compare the
  result with names written in ASCII letters. Two code points beyond ASCII have an ASCII
  lower case: U+0130 (bytes C4 B0) gives \<open>i\<close> and U+212A (bytes E2 84 AA) gives \<open>k\<close>;
  every other code point beyond ASCII, and every byte that is not valid UTF-8, stays beyond
  ASCII. \<open>ToLower\<close> lowers the ASCII capitals and these two code points and leaves the
  other bytes as they are, so \<open>ToLower s = t\<close> holds for an ASCII \<open>t\<close> exactly when the
  library's result equals \<open>t\<close>.
\<close>

definition toLowerByte :: "char \<Rightarrow> char" where
  "toLowerByte c =
     (let n = (of_char c :: nat)
      in if 65 \<le> n \<and> n \<le> 90 then char_of (n + 32) else c)"

fun ToLower :: "string \<Rightarrow> string" where
  "ToLower [] = []"
| "ToLower (c # cs) =
     (if c = CHR 0xC4 \<and> take 1 cs = [CHR 0xB0]
      then CHR ''i'' # ToLower (drop 1 cs)
      else if c = CHR 0xE2 \<and> take 2 cs = [CHR 0x84, CHR 0xAA]
      then CHR ''k'' # ToLower (drop 2 cs)
      else toLowerByte c # ToLower cs)"

text \<open>
  \<^verbatim>\<open>(*zapcore.Level).UnmarshalText\<close>, zap's \<^verbatim>\<open>level.go\<close>: the text is looked up as it
  is, then lowered; the names are accepted in lower case and in capitals, and the empty
  text is \<^verbatim>\<open>InfoLevel\<close>. The error is \<^verbatim>\<open>unrecognized level: "<text>"\<close>.
\<close>

definition unmarshalText :: "string \<Rightarrow> zapcore_Level option" where
  "unmarshalText text =
     (if text = ''debug'' \<or> text = ''DEBUG'' then Some DebugLevel
      else if text = ''info'' \<or> text = ''INFO'' \<or> text = [] then Some InfoLevel
      else if text = ''warn'' \<or> text = ''WARN'' then Some WarnLevel
      else if text = ''error'' \<or> text = ''ERROR'' then Some ErrorLevel
      else if text = ''dpanic'' \<or> text = ''DPANIC'' then Some DPanicLevel
      else if text = ''panic'' \<or> text = ''PANIC'' then Some PanicLevel
      else if text = ''fatal'' \<or> text = ''FATAL'' then Some FatalLevel
      else None)"

definition UnmarshalText :: "string \<Rightarrow> error + zapcore_Level" where
  "UnmarshalText text =
     (case unmarshalText text of
        Some lvl \<Rightarrow> Inr lvl
      | None \<Rightarrow>
          (case unmarshalText (ToLower text) of
             Some lvl \<Rightarrow> Inr lvl
           | None \<Rightarrow> Inl (UnrecognizedLevel text)))"

subsection \<open>\<^verbatim>\<open>Validate\<close>\<close>

text \<open>
  \<^verbatim>\<open>(*Options).Validate\<close> (lines 46 to 60). The errors are values: \<open>UnrecognizedLevel\<close>
  is the parser's error, \<open>NotValidLogFormat f\<close> is
  \<^verbatim>\<open>fmt.Errorf("not a valid log format: %q", o.Format)\<close>.
\<close>

definition Validate :: "Options \<Rightarrow> error list" where
  "Validate opts =
     (let errs0 = [];
          errs1 = (case UnmarshalText (Level opts) of
                     Inl err \<Rightarrow> errs0 @ [err]
                   | Inr _ \<Rightarrow> errs0);
          format = ToLower (Format opts);
          errs2 = (if format \<noteq> consoleFormat \<and> format \<noteq> jsonFormat
                   then errs1 @ [NotValidLogFormat (Format opts)]
                   else errs1)
      in errs2)"

subsection \<open>The engine's configuration and construction\<close>

text \<open>
  \<^verbatim>\<open>zap.Config\<close> with the fields the facade sets, prefixed \<open>cfg_\<close>, and
  \<^verbatim>\<open>zapcore.EncoderConfig\<close>. \<^verbatim>\<open>timeEncoder\<close> and \<^verbatim>\<open>milliSecondsDurationEncoder\<close>
  are functions of the package that \<^verbatim>\<open>options.go\<close> and \<^verbatim>\<open>log.go\<close> only name; an
  encoder is modelled by its name.
\<close>

datatype Encoder =
    CapitalLevelEncoder
  | CapitalColorLevelEncoder
  | timeEncoder
  | milliSecondsDurationEncoder
  | ShortCallerEncoder
  | FullNameEncoder

record EncoderConfig =
  MessageKey :: string
  LevelKey :: string
  NameKey :: string
  StacktraceKey :: string
  CallerKey :: string
  TimeKey :: string
  LineEnding :: string
  EncodeLevel :: Encoder
  EncodeTime :: Encoder
  EncodeDuration :: Encoder
  EncodeCaller :: Encoder
  EncodeName :: "Encoder option"

record zap_Config =
  cfg_Level :: zapcore_Level
  cfg_Development :: bool
  cfg_DisableCaller :: bool
  cfg_DisableStacktrace :: bool
  cfg_Sampling :: "(nat \<times> nat) option"
  cfg_Encoding :: string
  cfg_EncoderConfig :: EncoderConfig
  cfg_OutputPaths :: "string list"
  cfg_ErrorOutputPaths :: "string list"

text \<open>
  \<^verbatim>\<open>zap.Config.Build\<close>, zap's \<^verbatim>\<open>config.go\<close>: the encoder is looked up under the exact
  name \<^verbatim>\<open>cfg.Encoding\<close> (zap registers \<^verbatim>\<open>"console"\<close> and \<^verbatim>\<open>"json"\<close>, and the
  facade registers no other), then the sinks are opened, then the logger is made from the
  level, the development flag and the sampling settings (\<^verbatim>\<open>cfg.Sampling\<close>, when not
  \<^verbatim>\<open>nil\<close>, wraps the core in a sampler with a tick of one second). Whether a path can be
  opened depends on the file system,
  which is the parameter \<open>openable\<close>. The options that the facade passes along,
  \<^verbatim>\<open>zap.AddStacktrace(zapcore.PanicLevel)\<close> and \<^verbatim>\<open>zap.AddCallerSkip(1)\<close>, and the
  flags \<open>cfg_DisableCaller\<close> and \<open>cfg_DisableStacktrace\<close> only decide the caller and
  stack annotations of a record, which \<open>Entry\<close> leaves out; they do not change the logger
  modelled here.
\<close>

definition zap_Config_Build :: "(string \<Rightarrow> bool) \<Rightarrow> zap_Config \<Rightarrow> error + zap_Logger" where
  "zap_Config_Build openable cfg =
     (if cfg_Encoding cfg = [] then Inl NoEncoderNameSpecified
      else if cfg_Encoding cfg \<noteq> ''console'' \<and> cfg_Encoding cfg \<noteq> ''json''
      then Inl (NoEncoderRegistered (cfg_Encoding cfg))
      else if filter (\<lambda>path. \<not> openable path) (cfg_OutputPaths cfg) \<noteq> []
      then Inl (CannotOpenSinks (filter (\<lambda>path. \<not> openable path) (cfg_OutputPaths cfg)))
      else if filter (\<lambda>path. \<not> openable path) (cfg_ErrorOutputPaths cfg) \<noteq> []
      then Inl (CannotOpenSinks (filter (\<lambda>path. \<not> openable path) (cfg_ErrorOutputPaths cfg)))
      else Inr \<lparr>core_level = cfg_Level cfg, development = cfg_Development cfg,
                 logger_name = [], core_fields = [], sampling = cfg_Sampling cfg\<rparr>)"

subsection \<open>\<^verbatim>\<open>Build\<close> and \<^verbatim>\<open>New\<close>\<close>

text \<open>
  The configuration that \<^verbatim>\<open>(*Options).Build\<close> hands to the engine (\<^verbatim>\<open>options.go\<close>,
  lines 69 to 107), field by field as the source writes it.
\<close>

definition Build_zapConfig :: "Options \<Rightarrow> zap_Config" where
  "Build_zapConfig opts =
     (let zapLevel = (case UnmarshalText (Level opts) of
                        Inl err \<Rightarrow> InfoLevel
                      | Inr lvl \<Rightarrow> lvl);
          encodeLevel = (if Format opts = consoleFormat \<and> EnableColor opts
                         then CapitalColorLevelEncoder else CapitalLevelEncoder)
      in \<lparr>cfg_Level = zapLevel,
          cfg_Development = Development opts,
          cfg_DisableCaller = Development opts,
          cfg_DisableStacktrace = DisableStacktrace opts,
          cfg_Sampling = Some (100, 100),
          cfg_Encoding = Format opts,
          cfg_EncoderConfig =
            \<lparr>MessageKey = ''message'',
             LevelKey = ''level'',
             NameKey = ''logger'',
             StacktraceKey = ''stacktrace'',
             CallerKey = ''caller'',
             TimeKey = ''timestamp'',
             LineEnding = [CHR 0x0A],
             EncodeLevel = encodeLevel,
             EncodeTime = timeEncoder,
             EncodeDuration = milliSecondsDurationEncoder,
             EncodeCaller = ShortCallerEncoder,
             EncodeName = Some FullNameEncoder\<rparr>,
          cfg_OutputPaths = OutputPaths opts,
          cfg_ErrorOutputPaths = ErrorOutputPaths opts\<rparr>)"

text \<open>
  The process-wide state that \<^verbatim>\<open>Build\<close> writes: zap's global logger
  (\<^verbatim>\<open>zap.ReplaceGlobals\<close>) and the logger that the standard library's \<^verbatim>\<open>log\<close> package
  is redirected to (\<^verbatim>\<open>zap.RedirectStdLog\<close>).
\<close>

record Globals =
  zap_globalL :: "zap_Logger option"
  stdLog_redirect :: "zap_Logger option"

text \<open>\<^verbatim>\<open>(*Options).Build\<close> (lines 69 to 116); \<open>None\<close> is the \<^verbatim>\<open>nil\<close> error.\<close>

definition Build :: "(string \<Rightarrow> bool) \<Rightarrow> Options \<Rightarrow> Globals \<Rightarrow> error option \<times> Globals" where
  "Build openable opts g =
     (case zap_Config_Build openable (Build_zapConfig opts) of
        Inl err \<Rightarrow> (Some err, g)
      | Inr logger \<Rightarrow>
          (None, g\<lparr>stdLog_redirect := Some (zap_Named logger (Name opts)),
                   zap_globalL := Some logger\<rparr>))"

text \<open>
  The configuration that \<^verbatim>\<open>New\<close> hands to the engine (\<^verbatim>\<open>log.go\<close>, lines 170 to 207),
  and \<^verbatim>\<open>New\<close> itself for a non-nil argument (lines 165 to 224): it panics with the
  engine's error, and otherwise returns a pointer to a new struct. Its redirection of the
  standard library's \<^verbatim>\<open>log\<close> package is left out.
\<close>

definition New_loggerConfig :: "Options \<Rightarrow> zap_Config" where
  "New_loggerConfig opts =
     (let zapLevel = (case UnmarshalText (Level opts) of
                        Inl err \<Rightarrow> InfoLevel
                      | Inr lvl \<Rightarrow> lvl);
          encodeLevel = (if Format opts = consoleFormat \<and> EnableColor opts
                         then CapitalColorLevelEncoder else CapitalLevelEncoder);
          encoderConfig =
            \<lparr>MessageKey = ''message'',
             LevelKey = ''level'',
             NameKey = ''logger'',
             StacktraceKey = ''stacktrace'',
             CallerKey = ''caller'',
             TimeKey = ''timestamp'',
             LineEnding = [CHR 0x0A],
             EncodeLevel = encodeLevel,
             EncodeTime = timeEncoder,
             EncodeDuration = milliSecondsDurationEncoder,
             EncodeCaller = ShortCallerEncoder,
             EncodeName = None\<rparr>
      in \<lparr>cfg_Level = zapLevel,
          cfg_Development = Development opts,
          cfg_DisableCaller = DisableCaller opts,
          cfg_DisableStacktrace = DisableStacktrace opts,
          cfg_Sampling = Some (100, 100),
          cfg_Encoding = Format opts,
          cfg_EncoderConfig = encoderConfig,
          cfg_OutputPaths = OutputPaths opts,
          cfg_ErrorOutputPaths = ErrorOutputPaths opts\<rparr>)"

definition New :: "(string \<Rightarrow> bool) \<Rightarrow> store \<Rightarrow> Options \<Rightarrow> (store \<times> addr) effect" where
  "New openable s opts =
     (case zap_Config_Build openable (New_loggerConfig opts) of
        Inl err \<Rightarrow> ([], Panics ''cannot build the engine'')
      | Inr l \<Rightarrow>
          ([], Returns (new s \<lparr>level = InfoLevel, log = l,
                               zapLogger = zap_Named l (Name opts)\<rparr>)))"

section \<open>Notions used to state the properties\<close>

text \<open>
  A well-formed stretch of key/value arguments is a list of pairs with string keys, laid
  out flat; \<open>fields_of_pairs\<close> is the field list the specification asks for it: one
  generic field \<open>(keyString, value)\<close> for each pair, in order.
\<close>

definition flatten_pairs :: "(string \<times> iface) list \<Rightarrow> iface list" where
  "flatten_pairs ps = concat (map (\<lambda>(k, v). [IString k, v]) ps)"

definition fields_of_pairs :: "(string \<times> iface) list \<Rightarrow> Field list" where
  "fields_of_pairs ps = map (\<lambda>(k, v). Any k v) ps"

text \<open>The two type assertions of the conversion, as predicates.\<close>

fun is_Field :: "iface \<Rightarrow> bool" where
  "is_Field (IField f) = True"
| "is_Field x = False"

fun is_String :: "iface \<Rightarrow> bool" where
  "is_String (IString k) = True"
| "is_String x = False"

text \<open>
  Where conversion stops, in the specification's words: at an element that is already a
  typed field, at a last element with no value after it, or at a key that is not a string.
\<close>

definition stops :: "iface list \<Rightarrow> bool" where
  "stops t = (case t of [] \<Rightarrow> False | x # rest \<Rightarrow> is_Field x \<or> rest = [] \<or> \<not> is_String x)"

text \<open>The fields that the specification attaches for a context: one for each well-known
  key with a value, in the order request identifier, user name, watcher name.\<close>

definition context_fields :: "Context \<Rightarrow> Field list" where
  "context_fields ctx =
     map (\<lambda>k. Any k (ctx (IString k)))
         (filter (\<lambda>k. ctx (IString k) \<noteq> INil) [KeyRequestID, KeyUsername, KeyWatcherName])"

text \<open>The record that an engine writes for a message at a level, with fields after its
  bound ones.\<close>

definition record_of :: "zap_Logger \<Rightarrow> zapcore_Level \<Rightarrow> string \<Rightarrow> Field list \<Rightarrow> Entry" where
  "record_of l lvl msg flds =
     \<lparr>ent_Level = lvl, ent_LoggerName = logger_name l, ent_Message = msg,
      ent_Fields = core_fields l @ flds\<rparr>"

subsection \<open>Concrete loggers and inputs\<close>

text \<open>
  \<open>engine dev lvl\<close> is the engine that \<^verbatim>\<open>New\<close> builds from the default options with
  the development flag \<open>dev\<close> and a level name that parses to \<open>lvl\<close>;
  \<open>facade dev lvl\<close> is the struct \<^verbatim>\<open>New\<close> returns for it.
\<close>

definition engine :: "bool \<Rightarrow> zapcore_Level \<Rightarrow> zap_Logger" where
  "engine dev lvl =
     \<lparr>core_level = lvl, development = dev, logger_name = [], core_fields = [],
      sampling = Some (100, 100)\<rparr>"

definition facade :: "bool \<Rightarrow> zapcore_Level \<Rightarrow> zapLogger" where
  "facade dev lvl = \<lparr>level = InfoLevel, log = engine dev lvl, zapLogger = engine dev lvl\<rparr>"

definition only_requestID :: Context where
  "only_requestID key = (if key = IString KeyRequestID then IString ''r-1'' else INil)"

section \<open>Auxiliary facts\<close>

subsection \<open>Effects and the engine\<close>

lemma andThen_Returns [simp]:
  "andThen (es, Returns x) f = (es @ fst (f x), snd (f x))"
  by (simp add: andThen_def split: prod.splits)

lemma andThen_Panics [simp]: "andThen (es, Panics m) f = (es, Panics m)"
  by (simp add: andThen_def)

lemma andThen_Exits [simp]: "andThen (es, Exits) f = (es, Exits)"
  by (simp add: andThen_def)

lemma zap_DPanic_eq:
  "zap_DPanic l msg flds n =
     ((if core_Enabled l DPanicLevel \<and> sampled l n
       then [record_of l DPanicLevel msg flds] else []),
      (if development l then Panics msg else Returns ()))"
  by (simp add: zap_DPanic_def zap_log_def zap_Check_def ce_Write_def record_of_def
      DPanicLevel_def PanicLevel_def FatalLevel_def Let_def)

lemma zap_Check_below:
  "lvl < DPanicLevel \<Longrightarrow> zap_Check l lvl msg n =
     (if core_Enabled l lvl \<and> sampled l n
      then Some \<lparr>ce_Entry = record_of l lvl msg [], ce_willWrite = True,
                  ce_should = WriteThenNoop\<rparr>
      else None)"
  by (simp add: zap_Check_def record_of_def DPanicLevel_def PanicLevel_def FatalLevel_def)

lemma zap_Check_disabled:
  "lvl < DPanicLevel \<Longrightarrow> \<not> core_Enabled l lvl \<Longrightarrow> zap_Check l lvl msg n = None"
  by (simp add: zap_Check_def)

lemma zap_Check_no_action:
  "lvl \<noteq> PanicLevel \<Longrightarrow> lvl \<noteq> FatalLevel \<Longrightarrow> \<not> development l \<Longrightarrow>
   zap_Check l lvl msg n = Some ce \<Longrightarrow> ce_should ce = WriteThenNoop"
  by (auto simp: zap_Check_def Let_def split: if_splits)


lemma ce_Write_noop_returns:
  "ce_should ce = WriteThenNoop \<Longrightarrow> snd (ce_Write ce flds) = Returns ()"
  by (simp add: ce_Write_def)


lemma zap_Info_eq:
  "zap_Info l msg flds n =
     ((if core_Enabled l InfoLevel \<and> sampled l n
       then [record_of l InfoLevel msg flds] else []), Returns ())"
  by (simp add: zap_Info_def zap_log_def zap_Check_below InfoLevel_def DPanicLevel_def
      ce_Write_def record_of_def)

lemma zapLogger_Info_eq:
  "zapLogger_Info l msg flds n =
     ((if core_Enabled (zapLogger l) InfoLevel \<and> sampled (zapLogger l) n
       then [record_of (zapLogger l) InfoLevel msg flds] else []), Returns ())"
  by (simp add: zapLogger_Info_def zap_Info_eq)

text \<open>
  The engines and loggers used in the examples below are the ones \<^verbatim>\<open>New\<close> builds
  from the default options with one field changed, on a file system where every sink
  opens. Their sampler lets the first 100 entries of a level and message in a second pass
  and drops the 101st.
\<close>

lemma New_builds_facade:
  "New (\<lambda>path. True) [] (NewOptions\<lparr>Development := dev\<rparr>)
     = ([], Returns ([facade dev InfoLevel], 0))
   \<and> New (\<lambda>path. True) [] (NewOptions\<lparr>Level := ''warn''\<rparr>)
     = ([], Returns ([facade False WarnLevel], 0))
   \<and> New (\<lambda>path. True) [] (NewOptions\<lparr>Level := ''fatal''\<rparr>)
     = ([], Returns ([facade False FatalLevel], 0))"
  by (simp add: New_def New_loggerConfig_def zap_Config_Build_def NewOptions_def
      UnmarshalText_def unmarshalText_def consoleFormat_def zap_Named_def new_def
      facade_def engine_def Let_def)

lemma sampled_100:
  "sampled (engine dev lvl) 1 \<and> sampled (engine dev lvl) 100
   \<and> \<not> sampled (engine dev lvl) 101 \<and> sampled (engine dev lvl) 200"
  by (simp add: sampled_def engine_def)

subsection \<open>The conversion loop\<close>

lemma flatten_pairs_Nil [simp]: "flatten_pairs ps = [] \<longleftrightarrow> ps = []"
  by (cases ps) (auto simp: flatten_pairs_def)

lemma length_flatten_pairs [simp]: "length (flatten_pairs ps) = 2 * length ps"
  by (induction ps) (auto simp: flatten_pairs_def)

lemma loop_pairs:
  "handleFields_loop l (flatten_pairs ps @ t) flds n =
   handleFields_loop l t (flds @ fields_of_pairs ps) n"
  by (induction ps arbitrary: flds)
     (auto simp: flatten_pairs_def fields_of_pairs_def)

lemma loop_stops:
  "stops t \<Longrightarrow>
   \<exists>msg f. handleFields_loop l t flds n =
     ((if core_Enabled l DPanicLevel \<and> sampled l n
       then [record_of l DPanicLevel msg [f]] else []),
      (if development l then Panics msg else Returns flds))"
  by (induction l t flds n rule: handleFields_loop.induct)
     (auto simp: stops_def zap_DPanic_eq)

lemma handleFields_pairs:
  "handleFields l (flatten_pairs ps) additional n
     = ([], Returns (fields_of_pairs ps @ additional))"
  using loop_pairs [of l ps "[]" "[]" n]
  by (cases "ps = []") (simp_all add: handleFields_def fields_of_pairs_def)

lemma handleFields_stops:
  assumes "stops t"
  shows "\<exists>msg f. handleFields l (flatten_pairs ps @ t) additional n =
     ((if core_Enabled l DPanicLevel \<and> sampled l n
       then [record_of l DPanicLevel msg [f]] else []),
      (if development l then Panics msg else Returns (fields_of_pairs ps @ additional)))"
proof -
  from assms have ne: "t \<noteq> []" by (auto simp: stops_def)
  from loop_stops [OF assms, of l "fields_of_pairs ps" n]
  obtain msg f where
    "handleFields_loop l t (fields_of_pairs ps) n =
     ((if core_Enabled l DPanicLevel \<and> sampled l n
       then [record_of l DPanicLevel msg [f]] else []),
      (if development l then Panics msg else Returns (fields_of_pairs ps)))"
    by blast
  then have "handleFields l (flatten_pairs ps @ t) additional n =
     ((if core_Enabled l DPanicLevel \<and> sampled l n
       then [record_of l DPanicLevel msg [f]] else []),
      (if development l then Panics msg else Returns (fields_of_pairs ps @ additional)))"
    using ne loop_pairs [of l ps t "[]" n] by (simp add: handleFields_def)
  then show ?thesis by blast
qed

lemma args_shape:
  "\<exists>ps t. args = flatten_pairs ps @ t \<and> (t = [] \<or> stops t)"
proof (induction args rule: induct_list012)
  case 1
  show ?case by (rule exI [of _ "[]"]) (simp add: flatten_pairs_def)
next
  case (2 x)
  show ?case
    by (rule exI [of _ "[]"], rule exI [of _ "[x]"]) (simp add: flatten_pairs_def stops_def)
next
  case (3 x y zs)
  show ?case
  proof (cases "is_String x")
    case False
    then show ?thesis
      by (intro exI [of _ "[]"] exI [of _ "x # y # zs"]) (simp add: flatten_pairs_def stops_def)
  next
    case True
    then obtain k where k: "x = IString k" by (cases x) auto
    from 3 obtain ps t where "zs = flatten_pairs ps @ t" "t = [] \<or> stops t" by blast
    then show ?thesis
      by (intro exI [of _ "(k, y) # ps"] exI [of _ t]) (simp add: flatten_pairs_def k)
  qed
qed

lemma handleFields_returns:
  assumes "\<not> development l"
  shows "\<exists>es flds. handleFields l args additional n = (es, Returns flds)"
proof -
  obtain ps t where a: "args = flatten_pairs ps @ t" and t: "t = [] \<or> stops t"
    using args_shape by blast
  show ?thesis
  proof (cases "t = []")
    case True
    then show ?thesis using a handleFields_pairs [of l ps additional n] by simp
  next
    case False
    with t have "stops t" by simp
    from handleFields_stops [OF this, of l ps additional n] assms a
    show ?thesis by auto
  qed
qed

lemma handleFields_converts:
  assumes "\<not> development l \<or> kvs = flatten_pairs ps"
  shows "\<exists>es flds. handleFields l kvs [] n = (es, Returns flds)"
proof (cases "kvs = flatten_pairs ps")
  case True
  then show ?thesis using handleFields_pairs [of l ps "[]" n] by simp
next
  case False
  with assms have "\<not> development l" by simp
  from handleFields_returns [OF this, of kvs "[]" n] show ?thesis by blast
qed

lemma handleFields_odd:
  assumes "odd (length args)"
  shows "\<exists>ps t msg f. args = flatten_pairs ps @ t \<and> stops t \<and>
     handleFields l args additional n =
     ((if core_Enabled l DPanicLevel \<and> sampled l n
       then [record_of l DPanicLevel msg [f]] else []),
      (if development l then Panics msg else Returns (fields_of_pairs ps @ additional)))"
proof -
  obtain ps t where a: "args = flatten_pairs ps @ t" and t: "t = [] \<or> stops t"
    using args_shape by blast
  from assms a have "t \<noteq> []" by auto
  with t have st: "stops t" by simp
  from handleFields_stops [OF st, of l ps additional n]
  obtain msg f where "handleFields l (flatten_pairs ps @ t) additional n =
     ((if core_Enabled l DPanicLevel \<and> sampled l n
       then [record_of l DPanicLevel msg [f]] else []),
      (if development l then Panics msg else Returns (fields_of_pairs ps @ additional)))"
    by blast
  with a st show ?thesis by blast
qed

lemma handleFields_single:
  "\<not> is_Field x \<Longrightarrow> handleFields l [x] additional n =
     ((if core_Enabled l DPanicLevel \<and> sampled l n
       then [record_of l DPanicLevel
               ''odd number of arguments passed as key-value pairs for logging''
               [Any ''ignored key'' x]]
       else []),
      (if development l
       then Panics ''odd number of arguments passed as key-value pairs for logging''
       else Returns additional))"
  by (cases x) (simp_all add: handleFields_def zap_DPanic_eq)

lemma Infow_returns:
  assumes "\<not> development (log il)" "level il \<noteq> PanicLevel" "level il \<noteq> FatalLevel"
  shows "\<exists>es. infoLogger_Infow il msg kvs n n' = (es, Returns ())"
proof (cases "zap_Check (log il) (level il) msg n")
  case None
  then show ?thesis by (simp add: infoLogger_Infow_def)
next
  case (Some ce)
  from handleFields_returns [OF assms(1), of kvs "[]" n']
  obtain es flds where h: "handleFields (log il) kvs [] n' = (es, Returns flds)" by blast
  from zap_Check_no_action [OF assms(2) assms(3) assms(1) Some]
  have "snd (ce_Write ce flds) = Returns ()" by (rule ce_Write_noop_returns)
  with Some h show ?thesis
    by (simp add: infoLogger_Infow_def)
qed

subsection \<open>The store\<close>

lemma deref_Some: "deref s p = Some l \<longleftrightarrow> p < length s \<and> s ! p = l"
  by (auto simp: deref_def)

lemma deref_append_old: "p < length s \<Longrightarrow> deref (s @ [v]) p = deref s p"
  by (simp add: deref_def nth_append)

lemma deref_append_new: "deref (s @ [v]) (length s) = Some v"
  by (simp add: deref_def)

lemma assign_With_new:
  "assign_With (s @ [v]) (length s) f
   = s @ [v\<lparr>zapLogger := (zapLogger v)\<lparr>core_fields := core_fields (zapLogger v) @ [f]\<rparr>\<rparr>]"
  by (simp add: assign_With_def zap_With_def)

lemma WithValues_eq:
  assumes "deref s p = Some l" "handleFields (zapLogger l) kvs [] n = (es, Returns flds)"
  shows "zapLogger_WithValues s p kvs n =
     (es, Returns (s @ [\<lparr>level = InfoLevel,
                          log = (zapLogger l)\<lparr>core_fields := core_fields (zapLogger l) @ flds\<rparr>,
                          zapLogger = (zapLogger l)
                            \<lparr>core_fields := core_fields (zapLogger l) @ flds\<rparr>\<rparr>],
                   length s))"
  using assms
  by (simp add: zapLogger_WithValues_def withReceiver_def NewLogger_def new_def zap_With_def)

lemma WithValues_panics:
  assumes "deref s p = Some l" "development (zapLogger l)" "stops t"
  shows "\<exists>es msg. zapLogger_WithValues s p (flatten_pairs ps @ t) n = (es, Panics msg)"
proof -
  from handleFields_stops [OF assms(3), of "zapLogger l" ps "[]" n] assms(2)
  obtain es msg where
    "handleFields (zapLogger l) (flatten_pairs ps @ t) [] n = (es, Panics msg)"
    by auto
  with assms(1) show ?thesis
    by (simp add: zapLogger_WithValues_def withReceiver_def)
qed

lemma L_eq:
  assumes "deref s p = Some l"
  shows "zapLogger_L s p ctx =
     ([], Returns (s @ [l\<lparr>zapLogger := (zapLogger l)
                          \<lparr>core_fields := core_fields (zapLogger l) @ context_fields ctx\<rparr>\<rparr>],
                   length s))"
  using assms
  by (simp add: zapLogger_L_def zapLogger_clone_def withReceiver_def new_def Let_def
      assign_With_new context_fields_def)

lemma context_fields_set:
  "set (context_fields ctx) =
     {Any k (ctx (IString k)) | k.
        k \<in> {KeyRequestID, KeyUsername, KeyWatcherName} \<and> ctx (IString k) \<noteq> INil}"
  by (auto simp: context_fields_def)

lemma context_fields_distinct: "distinct (context_fields ctx)"
  by (simp add: context_fields_def distinct_map inj_on_def
      KeyRequestID_def KeyUsername_def KeyWatcherName_def)

subsection \<open>Options\<close>


lemma Level_of_int_range: "- 128 \<le> Level_of_int n \<and> Level_of_int n \<le> 127"
  by (simp add: Level_of_int_def)

lemma Build_eq:
  "Build openable opts g =
     (case zap_Config_Build openable (Build_zapConfig opts) of
        Inl err \<Rightarrow> (Some err, g)
      | Inr logger \<Rightarrow>
          (None, g\<lparr>stdLog_redirect := Some (zap_Named logger (Name opts)),
                   zap_globalL := Some logger\<rparr>))"
  by (simp add: Build_def)

lemma cfg_Encoding_Build [simp]: "cfg_Encoding (Build_zapConfig opts) = Format opts"
  by (simp add: Build_zapConfig_def Let_def)

lemma ToLower_Nil_iff [simp]: "ToLower s = [] \<longleftrightarrow> s = []"
  by (cases s) simp_all

lemma Build_zapConfig_fields:
  "cfg_Level (Build_zapConfig opts) =
     (case UnmarshalText (Level opts) of Inl err \<Rightarrow> InfoLevel | Inr lvl \<Rightarrow> lvl)
   \<and> cfg_Development (Build_zapConfig opts) = Development opts
   \<and> cfg_DisableCaller (Build_zapConfig opts) = Development opts
   \<and> cfg_DisableStacktrace (Build_zapConfig opts) = DisableStacktrace opts
   \<and> cfg_Encoding (Build_zapConfig opts) = Format opts
   \<and> cfg_OutputPaths (Build_zapConfig opts) = OutputPaths opts
   \<and> cfg_ErrorOutputPaths (Build_zapConfig opts) = ErrorOutputPaths opts"
  by (simp add: Build_zapConfig_def Let_def)

lemma Build_error_iff:
  "fst (Build openable opts g) = None \<longleftrightarrow>
     (\<exists>logger. zap_Config_Build openable (Build_zapConfig opts) = Inr logger)"
  by (simp add: Build_def split: sum.splits)

lemma Build_sampler:
  "zap_Config_Build openable (Build_zapConfig opts) = Inr logger
   \<Longrightarrow> sampling logger = Some (100, 100)"
  by (auto simp: zap_Config_Build_def Build_zapConfig_def Let_def split: if_splits)

section \<open>The claims\<close>

subsection \<open>C1: what \<^verbatim>\<open>Build\<close> hands to the engine\<close>

text \<open>
  Claim C1. \<^verbatim>\<open>Build\<close> constructs the engine from the options, each engine setting
  taken from the corresponding field; in particular caller capture is disabled exactly
  when the \<^verbatim>\<open>DisableCaller\<close> flag is set.

  \<^verbatim>\<open>Build\<close> fills \<^verbatim>\<open>DisableCaller\<close> of the engine's configuration from
  \<^verbatim>\<open>o.Development\<close> (\<^verbatim>\<open>options.go\<close>, line 83), where \<^verbatim>\<open>New\<close> fills it from
  \<^verbatim>\<open>opts.DisableCaller\<close> (\<^verbatim>\<open>log.go\<close>, line 197). The theorem evaluates both at the
  default options with one flag set: with \<^verbatim>\<open>DisableCaller\<close> set, \<^verbatim>\<open>Build\<close> leaves
  caller capture on and \<^verbatim>\<open>New\<close> turns it off; with only \<^verbatim>\<open>Development\<close> set,
  \<^verbatim>\<open>Build\<close> turns caller capture off. The other settings are taken from their own
  fields (\<open>Build_zapConfig_fields\<close>), and \<^verbatim>\<open>Build\<close> returns an error exactly when
  the engine cannot be constructed (\<open>Build_error_iff\<close>).
\<close>

theorem Build_DisableCaller_from_Development:
  "DisableCaller (NewOptions\<lparr>DisableCaller := True\<rparr>) = True
   \<and> cfg_DisableCaller (Build_zapConfig (NewOptions\<lparr>DisableCaller := True\<rparr>)) = False
   \<and> cfg_DisableCaller (New_loggerConfig (NewOptions\<lparr>DisableCaller := True\<rparr>)) = True
   \<and> DisableCaller (NewOptions\<lparr>Development := True\<rparr>) = False
   \<and> cfg_DisableCaller (Build_zapConfig (NewOptions\<lparr>Development := True\<rparr>)) = True"
  by (simp add: Build_zapConfig_def New_loggerConfig_def NewOptions_def Let_def)

subsection \<open>C2: when \<^verbatim>\<open>Infow\<close> converts its arguments\<close>




subsection \<open>C3: \<^verbatim>\<open>Validate\<close> reports both errors\<close>

text \<open>
  Claim C3. For every options value whose level string the engine's parser does not
  recognise and whose format, lowered, is neither \<^verbatim>\<open>console\<close> nor \<^verbatim>\<open>json\<close>,
  \<^verbatim>\<open>Validate\<close> returns exactly two errors, the one naming the level before the one
  naming the format. Both checks always run: the result is the level check's errors
  followed by the format check's errors.
\<close>

theorem Validate_reports_both:
  "(UnmarshalText (Level opts) = Inl e
      \<and> ToLower (Format opts) \<noteq> ''console'' \<and> ToLower (Format opts) \<noteq> ''json''
    \<longrightarrow> Validate opts = [UnrecognizedLevel (Level opts), NotValidLogFormat (Format opts)])
   \<and> Validate opts =
       (case UnmarshalText (Level opts) of
          Inl err \<Rightarrow> [UnrecognizedLevel (Level opts)] | Inr lvl \<Rightarrow> [])
       @ (if ToLower (Format opts) \<noteq> ''console'' \<and> ToLower (Format opts) \<noteq> ''json''
          then [NotValidLogFormat (Format opts)] else [])"
  by (auto simp: Validate_def UnmarshalText_def consoleFormat_def jsonFormat_def Let_def
      split: option.splits sum.splits)

text \<open>
  The options of the repository's test \<^verbatim>\<open>Test_Options_Validate\<close>: level and format
  are both \<^verbatim>\<open>test\<close>.
\<close>

theorem Validate_reports_both_witness:
  "UnmarshalText ''test'' = Inl (UnrecognizedLevel ''test'')
   \<and> ToLower ''test'' \<noteq> ''console'' \<and> ToLower ''test'' \<noteq> ''json''
   \<and> Validate (NewOptions\<lparr>Level := ''test'', Format := ''test''\<rparr>)
       = [UnrecognizedLevel ''test'', NotValidLogFormat ''test'']"
proof -
  have l: "UnmarshalText ''test'' = Inl (UnrecognizedLevel ''test'')" by code_simp
  have f: "ToLower ''test'' \<noteq> ''console'' \<and> ToLower ''test'' \<noteq> ''json''" by code_simp
  show ?thesis
    using l f
      Validate_reports_both
        [of "NewOptions\<lparr>Level := ''test'', Format := ''test''\<rparr>" "UnrecognizedLevel ''test''"]
    by simp
qed

subsection \<open>C4: what the conversion keeps\<close>

text \<open>
  Claim C4, as the code has it. The conversion works from left to right. For a list of
  pairs with string keys it returns one generic field for each pair, in order, followed
  by the additional fields. When such pairs are followed by a tail at which conversion
  stops (a typed field, a last element without a value, a key that is not a string) and
  the engine is not in development mode, it returns the fields of the pairs before the
  tail, followed by the additional fields, whatever the tail holds. In development mode
  the diagnostic call at the stop panics, and no field list is returned. Every argument
  list is of one of these two shapes.
\<close>

theorem handleFields_keeps_prefix:
  "handleFields l (flatten_pairs ps) additional n
     = ([], Returns (fields_of_pairs ps @ additional))
   \<and> (stops t \<and> \<not> development l \<longrightarrow>
        (\<exists>es. handleFields l (flatten_pairs ps @ t) additional n
               = (es, Returns (fields_of_pairs ps @ additional))))
   \<and> (stops t \<and> development l \<longrightarrow>
        (\<exists>es msg. handleFields l (flatten_pairs ps @ t) additional n = (es, Panics msg)))
   \<and> (\<exists>ps' t'. args = flatten_pairs ps' @ t' \<and> (t' = [] \<or> stops t'))"
  using handleFields_pairs [of l ps additional n] handleFields_stops [of t l ps additional n]
    args_shape [of args]
  by auto

text \<open>
  Two pairs followed by a key that is not a string, outside development mode; one pair
  followed by a typed field, in development mode.
\<close>

theorem handleFields_keeps_prefix_witness:
  "stops [IInt 7, IString ''x'', IString ''later'', IInt 2]
   \<and> \<not> development (engine False InfoLevel)
   \<and> (\<exists>es. handleFields (engine False InfoLevel)
              [IString ''a'', IString ''1'', IString ''b'', IBool True,
               IInt 7, IString ''x'', IString ''later'', IInt 2]
              [Any ''fixed'' INil] 1
            = (es, Returns [Any ''a'' (IString ''1''), Any ''b'' (IBool True), Any ''fixed'' INil]))
   \<and> stops [IField (Any ''f'' (IInt 1))] \<and> development (engine True InfoLevel)
   \<and> (\<exists>es msg. handleFields (engine True InfoLevel)
                  [IString ''a'', IString ''1'', IField (Any ''f'' (IInt 1))] [] 1
                = (es, Panics msg))"
  using handleFields_keeps_prefix
          [of "engine False InfoLevel" "[(''a'', IString ''1''), (''b'', IBool True)]"
              "[Any ''fixed'' INil]" 1 "[IInt 7, IString ''x'', IString ''later'', IInt 2]"]
        handleFields_keeps_prefix
          [of "engine True InfoLevel" "[(''a'', IString ''1'')]" "[]" 1
              "[IField (Any ''f'' (IInt 1))]"]
  by (simp add: stops_def engine_def flatten_pairs_def fields_of_pairs_def)

text \<open>
  The claim as written, that the additional fields are appended also when conversion was
  aborted, fails in development mode: the call panics and returns nothing.
\<close>

theorem handleFields_abort_in_development_counterexample:
  "handleFields (engine True InfoLevel) [IField (Any ''f'' (IInt 1))]
       [Any ''fixed'' (IBool True)] 1
     = ([record_of (engine True InfoLevel) DPanicLevel ''strongly-typed Zap Field passed to logr''
           [Any ''zap field'' (IField (Any ''f'' (IInt 1)))]],
        Panics ''strongly-typed Zap Field passed to logr'')"
  by (simp add: handleFields_def zap_DPanic_eq engine_def core_Enabled_def InfoLevel_def
      DPanicLevel_def sampled_def)

subsection \<open>C5: malformed key/value lists\<close>

text \<open>
  Claim C5, as the code has it. When the engine is not in development mode, the
  conversion returns for every argument list, and so do the two calls that convert
  through it, \<^verbatim>\<open>WithValues\<close> and the level-gated \<^verbatim>\<open>Infow\<close> (at a held level other
  than \<^verbatim>\<open>PanicLevel\<close> and \<^verbatim>\<open>FatalLevel\<close>). For every malformed list, that is pairs
  with string keys followed by a tail at which conversion stops (a typed field, a last
  element without a value, a key that is not a string), the conversion makes one
  diagnostic call: its record, at \<^verbatim>\<open>DPanicLevel\<close>, is written when the engine has that
  level enabled and the sampler lets it pass; then, outside development mode, the
  conversion returns the fields of the pairs before the stop, and in development mode it
  panics, and \<^verbatim>\<open>WithValues\<close> with it. Every list of odd length is malformed in this
  sense; for a one-element list whose element is no typed field, no field is converted.
  The facade's own \<^verbatim>\<open>Errorw\<close> does not convert: it is the sugared logger's call on
  the same engine, with the list as it is.
\<close>

theorem malformed_keyvals_do_not_raise_outside_development:
  "(\<not> development l \<longrightarrow>
      (\<exists>es flds. handleFields l args additional n = (es, Returns flds)))
   \<and> (stops t \<longrightarrow>
      (\<exists>msg f.
         handleFields l (flatten_pairs ps @ t) additional n =
           ((if core_Enabled l DPanicLevel \<and> sampled l n
             then [record_of l DPanicLevel msg [f]] else []),
            (if development l then Panics msg
             else Returns (fields_of_pairs ps @ additional)))))
   \<and> (odd (length args) \<longrightarrow>
      (\<exists>ps' t' msg f.
         args = flatten_pairs ps' @ t' \<and> stops t'
         \<and> handleFields l args additional n =
           ((if core_Enabled l DPanicLevel \<and> sampled l n
             then [record_of l DPanicLevel msg [f]] else []),
            (if development l then Panics msg
             else Returns (fields_of_pairs ps' @ additional)))))
   \<and> (\<not> is_Field x \<longrightarrow>
      handleFields l [x] additional n =
        ((if core_Enabled l DPanicLevel \<and> sampled l n
          then [record_of l DPanicLevel
                  ''odd number of arguments passed as key-value pairs for logging''
                  [Any ''ignored key'' x]]
          else []),
         (if development l
          then Panics ''odd number of arguments passed as key-value pairs for logging''
          else Returns additional)))
   \<and> (\<not> development (log il) \<and> level il \<noteq> PanicLevel \<and> level il \<noteq> FatalLevel \<longrightarrow>
      (\<exists>es. infoLogger_Infow il msg args n' n = (es, Returns ())))
   \<and> (deref s p = Some zl \<and> \<not> development (zapLogger zl) \<longrightarrow>
      (\<exists>es r. zapLogger_WithValues s p args n = (es, Returns r)))
   \<and> (deref s p = Some zl \<and> development (zapLogger zl) \<and> stops t \<longrightarrow>
      (\<exists>es m. zapLogger_WithValues s p (flatten_pairs ps @ t) n = (es, Panics m)))
   \<and> zapLogger_Errorw sugar zl msg args = sugar (zapLogger zl) ErrorLevel msg args"
proof -
  have "\<exists>es r. zapLogger_WithValues s p args n = (es, Returns r)"
    if "deref s p = Some zl" "\<not> development (zapLogger zl)"
  proof -
    from handleFields_returns [OF that(2), of args "[]" n]
    obtain es flds where "handleFields (zapLogger zl) args [] n = (es, Returns flds)" by blast
    from WithValues_eq [OF that(1) this] show ?thesis by blast
  qed
  moreover have "\<not> development l \<longrightarrow>
      (\<exists>es flds. handleFields l args additional n = (es, Returns flds))"
    using handleFields_returns [of l args additional n] by blast
  moreover have "zapLogger_Errorw sugar zl msg args = sugar (zapLogger zl) ErrorLevel msg args"
    by (simp add: zapLogger_Errorw_def)
  ultimately show ?thesis
    using handleFields_odd [of args l additional n] handleFields_single [of x l additional n]
      handleFields_stops [of t l ps additional n]
      Infow_returns [of il msg args n' n] WithValues_panics [of s p zl t ps n]
    by blast
qed

text \<open>
  On the default engine: the one-element list of the specification as a first and as a
  101st diagnostic, a pair followed by a key that is not a string, and the one-element
  list through \<^verbatim>\<open>WithValues\<close> and \<^verbatim>\<open>Infow\<close>; on the development engine, the
  malformed list through \<^verbatim>\<open>WithValues\<close>.
\<close>

theorem malformed_keyvals_do_not_raise_outside_development_witness:
  "\<not> development (engine False InfoLevel) \<and> odd (length [IString ''a''])
   \<and> \<not> is_Field (IString ''a'') \<and> stops [IInt 3, IInt 4]
   \<and> handleFields (engine False InfoLevel) [IString ''a''] [] 1 =
       ([record_of (engine False InfoLevel) DPanicLevel
           ''odd number of arguments passed as key-value pairs for logging''
           [Any ''ignored key'' (IString ''a'')]],
        Returns [])
   \<and> handleFields (engine False InfoLevel) [IString ''a''] [] 101 = ([], Returns [])
   \<and> (\<exists>es. handleFields (engine False InfoLevel) [IString ''k'', IBool True, IInt 3, IInt 4] [] 1
            = (es, Returns [Any ''k'' (IBool True)]))
   \<and> deref [facade False InfoLevel] 0 = Some (facade False InfoLevel)
   \<and> (\<exists>es r. zapLogger_WithValues [facade False InfoLevel] 0 [IString ''a''] 1
              = (es, Returns r))
   \<and> (\<exists>es. infoLogger_Infow \<lparr>level = InfoLevel, log = engine False InfoLevel\<rparr> ''m''
              [IString ''a''] 1 1 = (es, Returns ()))
   \<and> deref [facade True InfoLevel] 0 = Some (facade True InfoLevel)
   \<and> (\<exists>es m. zapLogger_WithValues [facade True InfoLevel] 0
                [IString ''k'', IBool True, IInt 3, IInt 4] 1 = (es, Panics m))"
proof -
  have d: "deref [facade False InfoLevel] 0 = Some (facade False InfoLevel)"
      "deref [facade True InfoLevel] 0 = Some (facade True InfoLevel)"
    by (simp_all add: deref_def)
  have e: "\<not> development (engine False InfoLevel)"
      "\<not> development (zapLogger (facade False InfoLevel))"
      "development (zapLogger (facade True InfoLevel))"
      "core_Enabled (engine False InfoLevel) DPanicLevel"
      "sampled (engine False InfoLevel) 1" "\<not> sampled (engine False InfoLevel) 101"
    by (simp_all add: engine_def facade_def core_Enabled_def InfoLevel_def DPanicLevel_def
        sampled_def)
  have lv: "InfoLevel \<noteq> PanicLevel" "InfoLevel \<noteq> FatalLevel"
    by (simp_all add: InfoLevel_def PanicLevel_def FatalLevel_def)
  have st: "stops [IInt 3, IInt 4]" by (simp add: stops_def)
  have fl: "flatten_pairs [(''k'', IBool True)] @ [IInt 3, IInt 4]
      = [IString ''k'', IBool True, IInt 3, IInt 4]"
      "fields_of_pairs [(''k'', IBool True)] = [Any ''k'' (IBool True)]"
    by (simp_all add: flatten_pairs_def fields_of_pairs_def)
  show ?thesis
    using d e lv st
      malformed_keyvals_do_not_raise_outside_development
        [of "engine False InfoLevel" "[IString ''a'']" "[]" 1 "[IInt 3, IInt 4]"
            "[(''k'', IBool True)]" "IString ''a''"
            "\<lparr>level = InfoLevel, log = engine False InfoLevel\<rparr>" "''m''" 1
            "[facade False InfoLevel]" 0 "facade False InfoLevel"]
      malformed_keyvals_do_not_raise_outside_development
        [of "engine False InfoLevel" "[IString ''a'']" "[]" 101 "[IInt 3, IInt 4]"
            "[(''k'', IBool True)]" "IString ''a''"
            "\<lparr>level = InfoLevel, log = engine False InfoLevel\<rparr>" "''m''" 1
            "[facade False InfoLevel]" 0 "facade False InfoLevel"]
      malformed_keyvals_do_not_raise_outside_development
        [of "engine True InfoLevel" "[IString ''a'']" "[]" 1 "[IInt 3, IInt 4]"
            "[(''k'', IBool True)]" "IString ''a''"
            "\<lparr>level = InfoLevel, log = engine False InfoLevel\<rparr>" "''m''" 1
            "[facade True InfoLevel]" 0 "facade True InfoLevel"]
    by (simp add: fl) blast
qed

text \<open>
  The claim as written fails in four ways: in development mode the conversion of the
  one-element list panics; an odd-length list of three elements yields one converted
  field, not zero; with the threshold at \<^verbatim>\<open>FatalLevel\<close> no diagnostic record is
  written; and the 101st identical diagnostic in a second is dropped by the sampler.
\<close>

theorem malformed_keyvals_counterexample:
  "handleFields (engine True InfoLevel) [IString ''a''] [] 1 =
     ([record_of (engine True InfoLevel) DPanicLevel
         ''odd number of arguments passed as key-value pairs for logging''
         [Any ''ignored key'' (IString ''a'')]],
      Panics ''odd number of arguments passed as key-value pairs for logging'')
   \<and> handleFields (engine False InfoLevel) [IString ''a'', IString ''1'', IString ''b''] [] 1 =
     ([record_of (engine False InfoLevel) DPanicLevel
         ''odd number of arguments passed as key-value pairs for logging''
         [Any ''ignored key'' (IString ''b'')]],
      Returns [Any ''a'' (IString ''1'')])
   \<and> handleFields (engine False FatalLevel) [IString ''a''] [] 1 = ([], Returns [])
   \<and> handleFields (engine False InfoLevel) [IString ''a''] [] 101 = ([], Returns [])"
  by (simp add: handleFields_def zap_DPanic_eq engine_def core_Enabled_def InfoLevel_def
      DPanicLevel_def FatalLevel_def sampled_def)

subsection \<open>C6: \<^verbatim>\<open>V\<close>\<close>




subsection \<open>C7: \<^verbatim>\<open>WithValues\<close>\<close>

text \<open>
  Claim C7, as the code has it. When the conversion of the key/value list returns, which
  it does for every list outside development mode and for every list of pairs with string
  keys in any mode, \<^verbatim>\<open>WithValues\<close> returns a pointer to a new logger whose bound fields
  are the receiver's followed by the converted fields; the store is the old store with
  the new struct appended, so the receiver is unchanged. A record that the new logger
  writes (its \<^verbatim>\<open>Info\<close> writes one when \<^verbatim>\<open>InfoLevel\<close> is enabled and the sampler lets
  the entry pass) carries the receiver's fields, then the converted ones, then the call's;
  a record of the receiver carries none of the converted ones. After two chained calls
  with lists of pairs the derived logger's records carry the fields of both lists, in
  order. In development mode every malformed list, pairs with string keys followed by a
  tail at which conversion stops, makes \<^verbatim>\<open>WithValues\<close> panic.
\<close>

theorem WithValues_appends_and_keeps_receiver:
  "(deref s p = Some l
      \<and> (\<not> development (zapLogger l) \<or> kvs = flatten_pairs ps) \<longrightarrow>
      (\<exists>es flds l'.
         handleFields (zapLogger l) kvs [] n = (es, Returns flds)
         \<and> zapLogger_WithValues s p kvs n = (es, Returns (s @ [l'], length s))
         \<and> deref (s @ [l']) p = Some l
         \<and> zapLogger l' = (zapLogger l)\<lparr>core_fields := core_fields (zapLogger l) @ flds\<rparr>
         \<and> log l' = zapLogger l' \<and> level l' = InfoLevel
         \<and> zapLogger_Info l' msg fs k =
             ((if core_Enabled (zapLogger l) InfoLevel \<and> sampled (zapLogger l) k
               then [record_of (zapLogger l) InfoLevel msg (flds @ fs)] else []), Returns ())
         \<and> zapLogger_Info l msg fs k =
             ((if core_Enabled (zapLogger l) InfoLevel \<and> sampled (zapLogger l) k
               then [record_of (zapLogger l) InfoLevel msg fs] else []), Returns ())))
   \<and> (deref s p = Some l \<longrightarrow>
      (\<exists>l1 l2.
         zapLogger_WithValues s p (flatten_pairs ps1) n = ([], Returns (s @ [l1], length s))
         \<and> zapLogger_WithValues (s @ [l1]) (length s) (flatten_pairs ps2) n
             = ([], Returns (s @ [l1, l2], Suc (length s)))
         \<and> deref (s @ [l1, l2]) p = Some l
         \<and> core_fields (zapLogger l2)
             = core_fields (zapLogger l) @ fields_of_pairs ps1 @ fields_of_pairs ps2
         \<and> zapLogger_Info l2 msg fs k =
             ((if core_Enabled (zapLogger l) InfoLevel \<and> sampled (zapLogger l) k
               then [record_of (zapLogger l) InfoLevel msg
                       (fields_of_pairs ps1 @ fields_of_pairs ps2 @ fs)]
               else []), Returns ())
         \<and> zapLogger_Info l msg fs k =
             ((if core_Enabled (zapLogger l) InfoLevel \<and> sampled (zapLogger l) k
               then [record_of (zapLogger l) InfoLevel msg fs] else []), Returns ())))
   \<and> (deref s p = Some l \<and> development (zapLogger l) \<and> stops t \<longrightarrow>
      (\<exists>es m. zapLogger_WithValues s p (flatten_pairs ps @ t) n = (es, Panics m)))"
proof (intro conjI impI)
  assume a: "deref s p = Some l \<and> (\<not> development (zapLogger l) \<or> kvs = flatten_pairs ps)"
  then have d: "deref s p = Some l" and p: "p < length s" by (simp_all add: deref_Some)
  from a handleFields_converts [of "zapLogger l" kvs ps n]
  obtain es flds where h: "handleFields (zapLogger l) kvs [] n = (es, Returns flds)" by blast
  let ?l' = "\<lparr>level = InfoLevel,
              log = (zapLogger l)\<lparr>core_fields := core_fields (zapLogger l) @ flds\<rparr>,
              zapLogger = (zapLogger l)\<lparr>core_fields := core_fields (zapLogger l) @ flds\<rparr>\<rparr>"
  have "zapLogger_WithValues s p kvs n = (es, Returns (s @ [?l'], length s))"
    by (rule WithValues_eq [OF d h])
  moreover have "deref (s @ [?l']) p = Some l"
    using d p by (simp add: deref_append_old)
  moreover have "zapLogger_Info ?l' msg fs k =
             ((if core_Enabled (zapLogger l) InfoLevel \<and> sampled (zapLogger l) k
               then [record_of (zapLogger l) InfoLevel msg (flds @ fs)] else []), Returns ())"
    by (simp add: zapLogger_Info_eq core_Enabled_def record_of_def sampled_def)
  ultimately show "\<exists>es flds l'.
         handleFields (zapLogger l) kvs [] n = (es, Returns flds)
         \<and> zapLogger_WithValues s p kvs n = (es, Returns (s @ [l'], length s))
         \<and> deref (s @ [l']) p = Some l
         \<and> zapLogger l' = (zapLogger l)\<lparr>core_fields := core_fields (zapLogger l) @ flds\<rparr>
         \<and> log l' = zapLogger l' \<and> level l' = InfoLevel
         \<and> zapLogger_Info l' msg fs k =
             ((if core_Enabled (zapLogger l) InfoLevel \<and> sampled (zapLogger l) k
               then [record_of (zapLogger l) InfoLevel msg (flds @ fs)] else []), Returns ())
         \<and> zapLogger_Info l msg fs k =
             ((if core_Enabled (zapLogger l) InfoLevel \<and> sampled (zapLogger l) k
               then [record_of (zapLogger l) InfoLevel msg fs] else []), Returns ())"
    using h zapLogger_Info_eq [of l msg fs k]
    by (intro exI [of _ es] exI [of _ flds] exI [of _ ?l']) simp
next
  assume d: "deref s p = Some l"
  then have p: "p < length s" by (simp add: deref_Some)
  let ?e1 = "(zapLogger l)\<lparr>core_fields := core_fields (zapLogger l) @ fields_of_pairs ps1\<rparr>"
  let ?l1 = "\<lparr>level = InfoLevel, log = ?e1, zapLogger = ?e1\<rparr>"
  let ?e2 = "?e1\<lparr>core_fields := core_fields ?e1 @ fields_of_pairs ps2\<rparr>"
  let ?l2 = "\<lparr>level = InfoLevel, log = ?e2, zapLogger = ?e2\<rparr>"
  have h1: "handleFields (zapLogger l) (flatten_pairs ps1) [] n
          = ([], Returns (fields_of_pairs ps1))"
    using handleFields_pairs [of "zapLogger l" ps1 "[]" n] by simp
  have w1: "zapLogger_WithValues s p (flatten_pairs ps1) n
      = ([], Returns (s @ [?l1], length s))"
    by (rule WithValues_eq [OF d h1])
  have d1: "deref (s @ [?l1]) (length s) = Some ?l1" by (rule deref_append_new)
  have h2: "handleFields (zapLogger ?l1) (flatten_pairs ps2) [] n
          = ([], Returns (fields_of_pairs ps2))"
    using handleFields_pairs [of "zapLogger ?l1" ps2 "[]" n] by simp
  have w2: "zapLogger_WithValues (s @ [?l1]) (length s) (flatten_pairs ps2) n
             = ([], Returns (s @ [?l1, ?l2], Suc (length s)))"
    using WithValues_eq [OF d1 h2] by simp
  have "deref (s @ [?l1, ?l2]) p = Some l"
    using d p by (simp add: deref_def nth_append)
  moreover have "zapLogger_Info ?l2 msg fs k =
             ((if core_Enabled (zapLogger l) InfoLevel \<and> sampled (zapLogger l) k
               then [record_of (zapLogger l) InfoLevel msg
                       (fields_of_pairs ps1 @ fields_of_pairs ps2 @ fs)]
               else []), Returns ())"
    by (simp add: zapLogger_Info_eq core_Enabled_def record_of_def sampled_def)
  ultimately show "\<exists>l1 l2.
         zapLogger_WithValues s p (flatten_pairs ps1) n = ([], Returns (s @ [l1], length s))
         \<and> zapLogger_WithValues (s @ [l1]) (length s) (flatten_pairs ps2) n
             = ([], Returns (s @ [l1, l2], Suc (length s)))
         \<and> deref (s @ [l1, l2]) p = Some l
         \<and> core_fields (zapLogger l2)
             = core_fields (zapLogger l) @ fields_of_pairs ps1 @ fields_of_pairs ps2
         \<and> zapLogger_Info l2 msg fs k =
             ((if core_Enabled (zapLogger l) InfoLevel \<and> sampled (zapLogger l) k
               then [record_of (zapLogger l) InfoLevel msg
                       (fields_of_pairs ps1 @ fields_of_pairs ps2 @ fs)]
               else []), Returns ())
         \<and> zapLogger_Info l msg fs k =
             ((if core_Enabled (zapLogger l) InfoLevel \<and> sampled (zapLogger l) k
               then [record_of (zapLogger l) InfoLevel msg fs] else []), Returns ())"
    using w1 w2 zapLogger_Info_eq [of l msg fs k]
    by (intro exI [of _ ?l1] exI [of _ ?l2]) simp
next
  assume "deref s p = Some l \<and> development (zapLogger l) \<and> stops t"
  then show "\<exists>es m. zapLogger_WithValues s p (flatten_pairs ps @ t) n = (es, Panics m)"
    using WithValues_panics [of s p l t ps n] by blast
qed

text \<open>
  On the default logger: one call with a malformed list, and the specification's chain
  \<^verbatim>\<open>WithValues("k","v").WithValues("k2","v2")\<close>; on the development logger, the
  malformed list.
\<close>

theorem WithValues_appends_and_keeps_receiver_witness:
  "deref [facade False InfoLevel] 0 = Some (facade False InfoLevel)
   \<and> \<not> development (zapLogger (facade False InfoLevel))
   \<and> (\<exists>es flds l'.
         handleFields (engine False InfoLevel) [IString ''k'', IString ''v'', IInt 3] [] 1
           = (es, Returns flds)
         \<and> zapLogger_WithValues [facade False InfoLevel] 0
             [IString ''k'', IString ''v'', IInt 3] 1
           = (es, Returns ([facade False InfoLevel, l'], 1))
         \<and> core_fields (zapLogger l') = flds)
   \<and> (\<exists>l1 l2.
         zapLogger_WithValues [facade False InfoLevel] 0 [IString ''k'', IString ''v''] 1
           = ([], Returns ([facade False InfoLevel, l1], 1))
         \<and> zapLogger_WithValues [facade False InfoLevel, l1] 1
             [IString ''k2'', IString ''v2''] 1
           = ([], Returns ([facade False InfoLevel, l1, l2], 2))
         \<and> deref [facade False InfoLevel, l1, l2] 0 = Some (facade False InfoLevel)
         \<and> zapLogger_Info l2 ''m'' [] 1 =
             ([record_of (engine False InfoLevel) InfoLevel ''m''
                 [Any ''k'' (IString ''v''), Any ''k2'' (IString ''v2'')]], Returns ())
         \<and> zapLogger_Info (facade False InfoLevel) ''m'' [] 1 =
             ([record_of (engine False InfoLevel) InfoLevel ''m'' []], Returns ()))
   \<and> deref [facade True InfoLevel] 0 = Some (facade True InfoLevel)
   \<and> development (zapLogger (facade True InfoLevel)) \<and> stops [IInt 3]
   \<and> (\<exists>es m. zapLogger_WithValues [facade True InfoLevel] 0
                [IString ''k'', IString ''v'', IInt 3] 1 = (es, Panics m))"
proof -
  have d: "deref [facade False InfoLevel] 0 = Some (facade False InfoLevel)"
      "deref [facade True InfoLevel] 0 = Some (facade True InfoLevel)"
    by (simp_all add: deref_def)
  have e: "\<not> development (zapLogger (facade False InfoLevel))"
      "development (zapLogger (facade True InfoLevel))"
      "zapLogger (facade False InfoLevel) = engine False InfoLevel"
      "core_Enabled (engine False InfoLevel) InfoLevel"
      "core_fields (engine False InfoLevel) = []"
      "sampled (engine False InfoLevel) (Suc 0)"
    by (simp_all add: facade_def engine_def core_Enabled_def sampled_def)
  have st: "stops [IInt 3]" by (simp add: stops_def)
  have dev: "\<exists>es m. zapLogger_WithValues [facade True InfoLevel] 0
                [IString ''k'', IString ''v'', IInt 3] 1 = (es, Panics m)"
    using d(2) e(2) st
      WithValues_appends_and_keeps_receiver
        [of "[facade True InfoLevel]" 0 "facade True InfoLevel" "[]"
            "[(''k'', IString ''v'')]" 1 "''m''" "[]" 1 "[]" "[]" "[IInt 3]"]
    by (simp add: flatten_pairs_def)
  show ?thesis
    using d e(1) e(2) st dev
      WithValues_appends_and_keeps_receiver
        [of "[facade False InfoLevel]" 0 "facade False InfoLevel"
            "[IString ''k'', IString ''v'', IInt 3]" "[]" 1 "''m''" "[]" 1
            "[(''k'', IString ''v'')]" "[(''k2'', IString ''v2'')]" "[IInt 3]"]
    by (simp add: e(3) e(4) e(5) e(6) flatten_pairs_def fields_of_pairs_def) force
qed

text \<open>
  The claim as written, for every logger and every key/value list, fails in development
  mode: with a one-element list the call panics and returns no logger.
\<close>

theorem WithValues_panics_in_development_counterexample:
  "zapLogger_WithValues [facade True InfoLevel] 0 [IString ''k''] 1 =
     ([record_of (engine True InfoLevel) DPanicLevel
         ''odd number of arguments passed as key-value pairs for logging''
         [Any ''ignored key'' (IString ''k'')]],
      Panics ''odd number of arguments passed as key-value pairs for logging'')"
  by (simp add: zapLogger_WithValues_def withReceiver_def deref_def handleFields_def
      zap_DPanic_eq facade_def engine_def core_Enabled_def InfoLevel_def DPanicLevel_def
      sampled_def)

subsection \<open>C8: loggers derived from a context\<close>

text \<open>
  Claim C8. For every context, \<^verbatim>\<open>L\<close> on a valid receiver returns a pointer to a copy
  of the receiver whose engine has the receiver's bound fields followed by one field for
  each of the keys \<^verbatim>\<open>requestID\<close>, \<^verbatim>\<open>username\<close> and \<^verbatim>\<open>watcher\<close> that has a
  value in the context, and none for a key without a value; the call writes nothing and
  does not panic; the store is the old store with the copy appended, so the receiver and
  every other logger are unchanged. A context with a request identifier only gives
  exactly that one field.
\<close>

theorem L_attaches_present_keys:
  "(deref s p = Some l \<longrightarrow>
      zapLogger_L s p ctx =
        ([], Returns (s @ [l\<lparr>zapLogger := (zapLogger l)
                             \<lparr>core_fields := core_fields (zapLogger l) @ context_fields ctx\<rparr>\<rparr>],
                      length s))
      \<and> (\<forall>s' ng. zapLogger_L s p ctx = ([], Returns (s', ng)) \<longrightarrow>
            ng \<noteq> p \<and> deref s' p = Some l \<and> (\<forall>q. q < length s \<longrightarrow> deref s' q = deref s q)))
   \<and> set (context_fields ctx) =
       {Any k (ctx (IString k)) | k.
          k \<in> {KeyRequestID, KeyUsername, KeyWatcherName} \<and> ctx (IString k) \<noteq> INil}
   \<and> distinct (context_fields ctx)
   \<and> (ctx (IString KeyRequestID) \<noteq> INil \<and> ctx (IString KeyUsername) = INil
        \<and> ctx (IString KeyWatcherName) = INil
      \<longrightarrow> context_fields ctx = [Any KeyRequestID (ctx (IString KeyRequestID))])"
proof -
  have "zapLogger_L s p ctx =
        ([], Returns (s @ [l\<lparr>zapLogger := (zapLogger l)
                             \<lparr>core_fields := core_fields (zapLogger l) @ context_fields ctx\<rparr>\<rparr>],
                      length s))
      \<and> (\<forall>s' ng. zapLogger_L s p ctx = ([], Returns (s', ng)) \<longrightarrow>
            ng \<noteq> p \<and> deref s' p = Some l \<and> (\<forall>q. q < length s \<longrightarrow> deref s' q = deref s q))"
    if d: "deref s p = Some l"
  proof -
    from d have p: "p < length s" by (simp add: deref_Some)
    show ?thesis
      using d p by (auto simp: L_eq [OF d] deref_append_old)
  qed
  moreover have "ctx (IString KeyRequestID) \<noteq> INil \<and> ctx (IString KeyUsername) = INil
        \<and> ctx (IString KeyWatcherName) = INil
      \<longrightarrow> context_fields ctx = [Any KeyRequestID (ctx (IString KeyRequestID))]"
    by (simp add: context_fields_def)
  ultimately show ?thesis
    using context_fields_set [of ctx] context_fields_distinct [of ctx] by blast
qed

text \<open>
  The default logger and a context that holds a request identifier only.
\<close>

theorem L_attaches_present_keys_witness:
  "deref [facade False InfoLevel] 0 = Some (facade False InfoLevel)
   \<and> zapLogger_L [facade False InfoLevel] 0 only_requestID =
       ([], Returns ([facade False InfoLevel,
                      (facade False InfoLevel)
                        \<lparr>zapLogger := (engine False InfoLevel)
                           \<lparr>core_fields := [Any ''requestID'' (IString ''r-1'')]\<rparr>\<rparr>], 1))
   \<and> context_fields only_requestID = [Any ''requestID'' (IString ''r-1'')]"
proof -
  have d: "deref [facade False InfoLevel] 0 = Some (facade False InfoLevel)"
    by (simp add: deref_def)
  have c: "only_requestID (IString KeyRequestID) \<noteq> INil
      \<and> only_requestID (IString KeyUsername) = INil
      \<and> only_requestID (IString KeyWatcherName) = INil"
    by (simp add: only_requestID_def KeyRequestID_def KeyUsername_def KeyWatcherName_def)
  have v: "only_requestID (IString ''requestID'') = IString ''r-1''"
    by (simp add: only_requestID_def KeyRequestID_def)
  have k: "KeyRequestID = ''requestID''" by (simp add: KeyRequestID_def)
  from d c L_attaches_present_keys [of "[facade False InfoLevel]" 0 "facade False InfoLevel"
        only_requestID]
  have "zapLogger_L [facade False InfoLevel] 0 only_requestID =
        ([], Returns ([facade False InfoLevel] @ [(facade False InfoLevel)
            \<lparr>zapLogger := (zapLogger (facade False InfoLevel))
               \<lparr>core_fields := core_fields (zapLogger (facade False InfoLevel))
                   @ context_fields only_requestID\<rparr>\<rparr>],
          length [facade False InfoLevel]))"
    and "context_fields only_requestID = [Any KeyRequestID (only_requestID (IString KeyRequestID))]"
    by blast+
  then show ?thesis
    using d by (simp add: v k facade_def engine_def)
qed

subsection \<open>C9: \<^verbatim>\<open>Write\<close>\<close>

text \<open>
  Claim C9, as the code has it. For every byte slice \<open>p\<close>, \<^verbatim>\<open>Write\<close> returns exactly
  \<open>(len(p), nil)\<close>, and it hands \<open>p\<close> to the engine as one message at \<^verbatim>\<open>InfoLevel\<close>:
  one record with message \<open>p\<close> is written when the engine has \<^verbatim>\<open>InfoLevel\<close> enabled
  and the sampler lets the entry pass, and none otherwise.
\<close>

theorem Write_reports_full_length:
  "snd (zapLogger_Write l p n) = Returns (int (length p), None)
   \<and> fst (zapLogger_Write l p n) =
       (if core_Enabled (zapLogger l) InfoLevel \<and> sampled (zapLogger l) n
        then [record_of (zapLogger l) InfoLevel p []] else [])"
  by (simp add: zapLogger_Write_def zap_Info_eq)

text \<open>
  On the default logger: a slice of five bytes as the first, the 150th and the 200th
  identical message of a second, and the empty slice as the 100th.
\<close>

theorem Write_reports_full_length_witness:
  "zapLogger_Write (facade False InfoLevel) ''hello'' 1 =
     ([record_of (engine False InfoLevel) InfoLevel ''hello'' []], Returns (5, None))
   \<and> zapLogger_Write (facade False InfoLevel) [] 100 =
     ([record_of (engine False InfoLevel) InfoLevel [] []], Returns (0, None))
   \<and> zapLogger_Write (facade False InfoLevel) ''hello'' 150 = ([], Returns (5, None))
   \<and> zapLogger_Write (facade False InfoLevel) ''hello'' 200 =
     ([record_of (engine False InfoLevel) InfoLevel ''hello'' []], Returns (5, None))"
  using Write_reports_full_length [of "facade False InfoLevel" "''hello''" 1]
        Write_reports_full_length [of "facade False InfoLevel" "[]" 100]
        Write_reports_full_length [of "facade False InfoLevel" "''hello''" 150]
        Write_reports_full_length [of "facade False InfoLevel" "''hello''" 200]
  by (simp add: prod_eq_iff facade_def engine_def core_Enabled_def InfoLevel_def sampled_def)

text \<open>
  The claim as written, that a record is emitted for every \<open>p\<close>, fails on a logger whose
  threshold is \<^verbatim>\<open>WarnLevel\<close>, and on the default logger for the 101st identical
  message in a second: nothing is written, and the result is still \<open>(5, nil)\<close>.
\<close>

theorem Write_no_record_counterexample:
  "zapLogger_Write (facade False WarnLevel) ''hello'' 1 = ([], Returns (5, None))
   \<and> core_Enabled (zapLogger (facade False InfoLevel)) InfoLevel
   \<and> zapLogger_Write (facade False InfoLevel) ''hello'' 101 = ([], Returns (5, None))"
  by (simp add: zapLogger_Write_def zap_Info_eq facade_def engine_def core_Enabled_def
      InfoLevel_def WarnLevel_def sampled_def)

subsection \<open>C10: options that \<^verbatim>\<open>Validate\<close> accepts and \<^verbatim>\<open>Build\<close> rejects\<close>

text \<open>
  Claim C10. There are options that \<^verbatim>\<open>Validate\<close> accepts and \<^verbatim>\<open>Build\<close> rejects:
  every options value with a level the parser recognises and a format that is
  \<^verbatim>\<open>console\<close> or \<^verbatim>\<open>json\<close> only after lowering, such as the default options with
  the format \<^verbatim>\<open>Console\<close> or \<^verbatim>\<open>JSON\<close>. \<^verbatim>\<open>Validate\<close> compares the lowered
  format, \<^verbatim>\<open>Build\<close> hands the format as it is to the engine as the encoding name, and
  the engine has no encoder of that name. The error is returned whatever the file system
  and the process-wide state are, and that state is left as it was.
\<close>

theorem Validate_accepts_what_Build_rejects:
  "(UnmarshalText (Level opts) = Inr lvl
      \<and> (ToLower (Format opts) = ''console'' \<or> ToLower (Format opts) = ''json'')
      \<and> Format opts \<noteq> ''console'' \<and> Format opts \<noteq> ''json''
    \<longrightarrow> Validate opts = []
        \<and> Build openable opts g = (Some (NoEncoderRegistered (Format opts)), g))
   \<and> Validate (NewOptions\<lparr>Format := ''Console''\<rparr>) = []
   \<and> Build openable (NewOptions\<lparr>Format := ''Console''\<rparr>) g
       = (Some (NoEncoderRegistered ''Console''), g)
   \<and> Validate (NewOptions\<lparr>Format := ''JSON''\<rparr>) = []
   \<and> Build openable (NewOptions\<lparr>Format := ''JSON''\<rparr>) g
       = (Some (NoEncoderRegistered ''JSON''), g)"
proof -
  have gen: "Validate opts = [] \<and> Build openable opts g = (Some (NoEncoderRegistered (Format opts)), g)"
    if "UnmarshalText (Level opts) = Inr lvl"
      and "ToLower (Format opts) = ''console'' \<or> ToLower (Format opts) = ''json''"
      and "Format opts \<noteq> ''console''" and "Format opts \<noteq> ''json''"
    for opts lvl
  proof -
    from that(2) have "Format opts \<noteq> []" by auto
    with that show ?thesis
      by (auto simp: Validate_def Build_def zap_Config_Build_def consoleFormat_def jsonFormat_def)
  qed
  have lv: "UnmarshalText (Level NewOptions) = Inr InfoLevel"
    by (simp add: NewOptions_def UnmarshalText_def unmarshalText_def)
  have c: "ToLower ''Console'' = ''console''" by code_simp
  have j: "ToLower ''JSON'' = ''json''" by code_simp
  show ?thesis
    using gen [of opts lvl]
      gen [of "NewOptions\<lparr>Format := ''Console''\<rparr>" InfoLevel]
      gen [of "NewOptions\<lparr>Format := ''JSON''\<rparr>" InfoLevel] lv c j
    by simp
qed

text \<open>
  The general statement at the level \<^verbatim>\<open>warn\<close> and the format \<^verbatim>\<open>Json\<close>.
\<close>

theorem Validate_accepts_what_Build_rejects_witness:
  "UnmarshalText ''warn'' = Inr WarnLevel
   \<and> ToLower ''Json'' = ''json''
   \<and> Validate (NewOptions\<lparr>Level := ''warn'', Format := ''Json''\<rparr>) = []
   \<and> Build (\<lambda>path. True) (NewOptions\<lparr>Level := ''warn'', Format := ''Json''\<rparr>)
        \<lparr>zap_globalL = None, stdLog_redirect = None\<rparr>
       = (Some (NoEncoderRegistered ''Json''), \<lparr>zap_globalL = None, stdLog_redirect = None\<rparr>)"
proof -
  have l: "UnmarshalText ''warn'' = Inr WarnLevel" by code_simp
  have f: "ToLower ''Json'' = ''json''" by code_simp
  show ?thesis
    using l f
      Validate_accepts_what_Build_rejects
        [of "NewOptions\<lparr>Level := ''warn'', Format := ''Json''\<rparr>" WarnLevel "\<lambda>path. True"
            "\<lparr>zap_globalL = None, stdLog_redirect = None\<rparr>"]
    by simp
qed

end
